theory Spec2Isabelle
  imports Main
begin

section \<open>Errors\<close>

text \<open>
  Go errors as values. An error coming back from the cluster client or the watcher is an
  API status error carrying its reason; \<open>fmt.Errorf\<close> with \<open>%w\<close> wraps an error,
  without \<open>%w\<close> (or \<open>errors.New\<close>) it makes a plain one; \<open>utilerrors.NewAggregate\<close>
  bundles a list.
\<close>

datatype StatusReason = StatusReasonForbidden | StatusReasonNotFound | StatusReasonOther

datatype error =
    ApiStatusError StatusReason string
  | ErrorNew string
  | Wrapf string error
  | Aggregate "error list"

fun IsForbidden :: "error \<Rightarrow> bool" where
  "IsForbidden (ApiStatusError r m) = (r = StatusReasonForbidden)"
| "IsForbidden (Wrapf m e) = IsForbidden e"
| "IsForbidden (ErrorNew m) = False"
| "IsForbidden (Aggregate es) = False"

fun IsNotFound :: "error \<Rightarrow> bool" where
  "IsNotFound (ApiStatusError r m) = (r = StatusReasonNotFound)"
| "IsNotFound (Wrapf m e) = IsNotFound e"
| "IsNotFound (ErrorNew m) = False"
| "IsNotFound (Aggregate es) = False"

definition NewAggregate :: "error list \<Rightarrow> error option" where
  "NewAggregate errs = (if errs = [] then None else Some (Aggregate errs))"

section \<open>Data model\<close>

subsection \<open>Unstructured content\<close>

text \<open>
  The content of an \<open>unstructured.Unstructured\<close> is a \<open>map[string]interface{}\<close>: a tree
  of maps, slices and scalars. Maps are partial functions, so that equality of two trees is
  Go's \<open>reflect.DeepEqual\<close> on them.
\<close>

datatype json =
    JNull
  | JBool bool
  | JNum int
  | JStr string
  | JArr "json list"
  | JObj "string \<Rightarrow> json option"

type_synonym Content = "string \<Rightarrow> json option"

datatype GroupVersionKind = GVK (Group: string) (Version: string) (Kind: string)

definition namespaceGVK :: GroupVersionKind where
  "namespaceGVK = GVK '''' ''v1'' ''Namespace''"
definition subscriptionGVK :: GroupVersionKind where
  "subscriptionGVK = GVK ''operators.coreos.com'' ''v1alpha1'' ''Subscription''"
definition operatorGroupGVK :: GroupVersionKind where
  "operatorGroupGVK = GVK ''operators.coreos.com'' ''v1'' ''OperatorGroup''"
definition clusterServiceVersionGVK :: GroupVersionKind where
  "clusterServiceVersionGVK = GVK ''operators.coreos.com'' ''v1alpha1'' ''ClusterServiceVersion''"
definition deploymentGVK :: GroupVersionKind where
  "deploymentGVK = GVK ''apps'' ''v1'' ''Deployment''"
definition catalogSrcGVK :: GroupVersionKind where
  "catalogSrcGVK = GVK ''operators.coreos.com'' ''v1alpha1'' ''CatalogSource''"
definition installPlanGVK :: GroupVersionKind where
  "installPlanGVK = GVK ''operators.coreos.com'' ''v1alpha1'' ''InstallPlan''"

definition emptyGVK :: GroupVersionKind where
  "emptyGVK = GVK '''' '''' ''''"

text \<open>\<open>schema.GroupVersion.String()\<close>: the version alone for the core group.\<close>

definition GroupVersion_String :: "GroupVersionKind \<Rightarrow> string" where
  "GroupVersion_String g = (if Group g = '''' then Version g else Group g @ ''/'' @ Version g)"

definition CatalogSourceReady :: string where
  "CatalogSourceReady = ''READY''"

subsection \<open>The policy\<close>

text \<open>
  Modelled from the spec: the remediation action of the policy API and its two tests
  \<open>IsInform\<close> and \<open>IsEnforce\<close> are declared in the API package, which is not in the
  source given. "Remediation mode: inform | enforce": an enumeration of the two.
\<close>

datatype RemediationAction = Inform | Enforce

definition IsInform :: "RemediationAction \<Rightarrow> bool" where
  "IsInform ra = (ra = Inform)"

definition IsEnforce :: "RemediationAction \<Rightarrow> bool" where
  "IsEnforce ra = (ra = Enforce)"

text \<open>
  \<open>Subscription_Raw\<close> and \<open>OperatorGroup_Raw\<close> are the raw JSON bytes of the two
  fragments; the operator-group fragment is optional (a nil pointer is \<open>None\<close>).
\<close>

record OperatorPolicySpec =
  RemediationAction :: RemediationAction
  ComplianceType :: string
  Subscription_Raw :: string
  OperatorGroup_Raw :: "string option"
  Versions :: "string list"

record OperatorPolicy =
  pol_Name :: string
  pol_Namespace :: string
  pol_Spec :: OperatorPolicySpec

record ObjectIdentifier =
  oi_Group :: string
  oi_Version :: string
  oi_Kind :: string
  oi_Namespace :: string
  oi_Name :: string

definition opPolIdentifier :: "string \<Rightarrow> string \<Rightarrow> ObjectIdentifier" where
  "opPolIdentifier namespace name =
     \<lparr> oi_Group = ''policy.open-cluster-management.io'', oi_Version = ''v1beta1'',
       oi_Kind = ''OperatorPolicy'', oi_Namespace = namespace, oi_Name = name \<rparr>"

subsection \<open>Typed objects of the lifecycle manager\<close>

datatype ConditionStatus = ConditionTrue | ConditionFalse | ConditionUnknown

record SubscriptionSpec =
  CatalogSource :: string
  CatalogSourceNamespace :: string
  Package :: string
  Channel :: string
  StartingCSV :: string
  InstallPlanApproval :: string
  Config :: "json option"

definition ApprovalManual :: string where
  "ApprovalManual = ''Manual''"

record SubscriptionCondition =
  sc_Type :: string
  sc_Status :: ConditionStatus
  sc_Reason :: string
  sc_Message :: string
  sc_LastTransitionTime :: "nat option"

record SubscriptionStatus =
  InstalledCSV :: string
  InstallPlanRef :: "string option"
  Conditions :: "SubscriptionCondition list"

text \<open>
  A typed subscription. \<open>sub_Spec\<close> is a pointer in the source; it is taken to be non-nil,
  as it is for every subscription the builder makes and every one the API server admits.
  \<open>InstallPlanRef\<close> keeps the name of the referenced plan.
\<close>

record Subscription =
  sub_GVK :: GroupVersionKind
  sub_Name :: string
  sub_Namespace :: string
  sub_Spec :: SubscriptionSpec
  sub_Status :: SubscriptionStatus

definition SubscriptionResolutionFailed :: string where
  "SubscriptionResolutionFailed = ''ResolutionFailed''"

text \<open>\<open>SubscriptionStatus.GetCondition\<close>: the first condition of the type, or an Unknown one.\<close>

fun GetCondition :: "SubscriptionCondition list \<Rightarrow> string \<Rightarrow> SubscriptionCondition" where
  "GetCondition [] t =
     \<lparr> sc_Type = t, sc_Status = ConditionUnknown, sc_Reason = '''', sc_Message = '''',
       sc_LastTransitionTime = None \<rparr>"
| "GetCondition (c # cs) t = (if sc_Type c = t then c else GetCondition cs t)"

record OperatorGroupSpec =
  TargetNamespaces :: "string list"
  ServiceAccountName :: string
  og_Selector :: "json option"

record OperatorGroup =
  og_GVK :: GroupVersionKind
  og_Name :: string
  og_GenerateName :: string
  og_Namespace :: string
  og_ResourceVersion :: string
  og_Spec :: OperatorGroupSpec

record ClusterServiceVersion =
  csv_Name :: string
  csv_Namespace :: string
  DeploymentSpecs :: "string list"
  csv_Status :: json

record Deployment =
  dep_Name :: string
  dep_Namespace :: string
  UnavailableReplicas :: int

record CatalogSourceT =
  cs_Name :: string
  GRPCConnectionState :: "string option"

text \<open>A \<open>client.Object\<close> handed to the cluster client or to a status helper.\<close>

datatype Object =
    OperatorGroupObj OperatorGroup
  | SubscriptionObj Subscription
  | UnstructuredObj Content

subsection \<open>Conditions and related objects\<close>

text \<open>
  The condition and related-object values come from helpers of the status file of the
  controller, which is not in the source given. They are kept symbolic: one constructor
  per helper, with the helper's arguments. \<open>RawCondition\<close> is a
  \<open>metav1.Condition\<close> literal with its Type, Status, Reason, Message and
  LastTransitionTime (the zero time is \<open>None\<close>).
\<close>

datatype Condition =
    RawCondition string ConditionStatus string string "nat option"
  | validationCond "error list"
  | invalidCausingUnknownCond string
  | missingWantedCond string
  | createdCond string
  | matchesCond string
  | mismatchCond string
  | mismatchCondUnfixable string
  | updatedCond string
  | opGroupPreexistingCond
  | opGroupTooManyCond
  | noInstallPlansCond
  | installPlanFailed
  | installPlanInstallingCond
  | installPlansNoApprovals
  | installPlanUpgradeCond "string list" "Content list"
  | installPlanApprovedCond string
  | noCSVCond
  | buildCSVCond ClusterServiceVersion
  | noDeploymentsCond
  | buildDeploymentCond bool "Deployment list"
  | catalogSourceUnknownCond
  | catalogSourceFindCond bool bool string

datatype RelatedObject =
    missingWantedObj Object
  | createdObj Object
  | matchedObj Object
  | mismatchedObj Object
  | updatedObj Object
  | nonCompObj Object string
  | opGroupTooManyObj Content
  | noInstallPlansObj string
  | existingInstallPlanObj Content string
  | noExistingCSVObj
  | missingCSVObj string string
  | existingCSVObj ClusterServiceVersion
  | noExistingDeploymentObj
  | missingDeploymentObj string string
  | existingDeploymentObj Deployment
  | catalogSrcUnknownObj string string
  | catalogSourceObj string string bool bool

definition subConditionType :: string where
  "subConditionType = ''SubscriptionCompliant''"

text \<open>
  Modelled from the spec: \<open>opGroupTooManyObjs\<close>, of the status file, is not in the
  source given. "Two or more matches is a dedicated terminal NonCompliant verdict; all found
  objects are listed as related objects": one related object per found group, in order.
\<close>

definition opGroupTooManyObjs :: "Content list \<Rightarrow> RelatedObject list" where
  "opGroupTooManyObjs opGroups = map opGroupTooManyObj opGroups"

text \<open>
  Modelled from the spec: the verdict of a condition helper of the status file, where the
  spec (sections 4.3, 4.4 and 8) or the end-to-end tests of the repository state it:
  Unknown for the invalid-policy condition, NonCompliant (False) for missing, mismatched,
  unfixable, too many operator groups, a failed or installing plan and a pending upgrade,
  Compliant (True) for created, matching, updated, a pre-existing operator group, no plans,
  no approvals pending and an approved plan. \<open>None\<close> where neither states one.
\<close>

fun Condition_Status :: "Condition \<Rightarrow> ConditionStatus option" where
  "Condition_Status (RawCondition t st r m ltt) = Some st"
| "Condition_Status (validationCond errs) =
     Some (if errs = [] then ConditionTrue else ConditionFalse)"
| "Condition_Status (invalidCausingUnknownCond k) = Some ConditionUnknown"
| "Condition_Status (missingWantedCond k) = Some ConditionFalse"
| "Condition_Status (createdCond k) = Some ConditionTrue"
| "Condition_Status (matchesCond k) = Some ConditionTrue"
| "Condition_Status (mismatchCond k) = Some ConditionFalse"
| "Condition_Status (mismatchCondUnfixable k) = Some ConditionFalse"
| "Condition_Status (updatedCond k) = Some ConditionTrue"
| "Condition_Status opGroupPreexistingCond = Some ConditionTrue"
| "Condition_Status opGroupTooManyCond = Some ConditionFalse"
| "Condition_Status noInstallPlansCond = Some ConditionTrue"
| "Condition_Status installPlanFailed = Some ConditionFalse"
| "Condition_Status installPlanInstallingCond = Some ConditionFalse"
| "Condition_Status installPlansNoApprovals = Some ConditionTrue"
| "Condition_Status (installPlanUpgradeCond vs ips) = Some ConditionFalse"
| "Condition_Status (installPlanApprovedCond v) = Some ConditionTrue"
| "Condition_Status noCSVCond = None"
| "Condition_Status (buildCSVCond csv) = None"
| "Condition_Status noDeploymentsCond = None"
| "Condition_Status (buildDeploymentCond b ds) = None"
| "Condition_Status catalogSourceUnknownCond = None"
| "Condition_Status (catalogSourceFindCond u m n) = None"

section \<open>The run's state and its collaborators\<close>

text \<open>
  Unstructured objects are handled through pointers, and the watch cache hands out pointers
  to its own objects: \<open>heap\<close> maps an address to the content of the object there, and
  \<open>next_addr\<close> is the first address not yet allocated. \<open>status_log\<close> is the sequence
  of \<open>updateStatus\<close> calls made on the policy (condition and related objects of each),
  \<open>requests\<close> the sequence of requests sent to the cluster, \<open>emitted\<close> the compliance
  events emitted.
\<close>

datatype request =
    Create Object
  | Update Content
  | DryRunUpdate Content
  | StatusUpdate "(Condition \<times> RelatedObject list) list"

record state =
  heap :: "nat \<Rightarrow> Content"
  next_addr :: nat
  status_log :: "(Condition \<times> RelatedObject list) list"
  requests :: "request list"
  emitted :: "Condition list"

text \<open>
  What the reconciler is given and what the source calls but does not define: the
  dependency watcher, the cluster client, the libraries (JSON, validation, the
  unstructured converter, regular expressions) and the functions of the controller's other
  files (\<open>updateStatus\<close>, \<open>calculateComplianceCondition\<close>, \<open>emitComplianceEvent\<close>,
  \<open>handleKeys\<close>, \<open>removeFieldsForComparison\<close>). Every result holds for each of them.

  \<open>updateStatus_changed\<close> is the result of \<open>updateStatus\<close> for the updates made so
  far. \<open>handleKeys desired existing existingCopy complianceType\<close> gives the message, the
  update-needed flag and the content it leaves in \<open>existing\<close>. A client call that succeeds
  gives the object as the server returns it, which the client writes back into its argument.
\<close>

datatype regex =
    Lit string
  | Alt regex regex
  | Seq regex regex
  | EndOfText
  | Whitespace

record env =
  DefaultNamespace :: string
  watcher_Get :: "ObjectIdentifier \<Rightarrow> GroupVersionKind \<Rightarrow> string \<Rightarrow> string \<Rightarrow> error + nat option"
  watcher_List :: "ObjectIdentifier \<Rightarrow> GroupVersionKind \<Rightarrow> string \<Rightarrow> error + nat list"
  RemoveWatcher :: "ObjectIdentifier \<Rightarrow> error option"
  StartQueryBatch :: "ObjectIdentifier \<Rightarrow> error option"
  EndQueryBatch :: "ObjectIdentifier \<Rightarrow> error option"
  client_Get :: "string \<Rightarrow> string \<Rightarrow> error + OperatorPolicy"
  client_Create_OperatorGroup :: "OperatorGroup \<Rightarrow> error + OperatorGroup"
  client_Create_Subscription :: "Subscription \<Rightarrow> error + Subscription"
  client_Update :: "Content \<Rightarrow> error + Content"
  client_DryRunUpdate :: "Content \<Rightarrow> error + Content"
  client_StatusUpdate :: "(Condition \<times> RelatedObject list) list \<Rightarrow> error option"
  emitComplianceEvent :: "Condition \<Rightarrow> error option"
  updateStatus_changed :: "(Condition \<times> RelatedObject list) list \<Rightarrow> Condition \<Rightarrow> RelatedObject list \<Rightarrow> bool"
  calculateComplianceCondition :: "(Condition \<times> RelatedObject list) list \<Rightarrow> Condition"
  handleKeys :: "Content \<Rightarrow> Content \<Rightarrow> Content \<Rightarrow> string \<Rightarrow> string \<times> bool \<times> Content"
  removeFieldsForComparison :: "Content \<Rightarrow> Content"
  json_Unmarshal :: "string \<Rightarrow> error + Content"
  json_Marshal :: "Content \<Rightarrow> error + string"
  Decode_SubscriptionSpec :: "string \<Rightarrow> error + SubscriptionSpec"
  Decode_OperatorGroupSpec :: "string \<Rightarrow> error + OperatorGroupSpec"
  IsDNS1123Label :: "string \<Rightarrow> string list"
  ToUnstructured :: "Object \<Rightarrow> error + Content"
  FromUnstructured_Subscription :: "Content \<Rightarrow> error + Subscription"
  FromUnstructured_CSV :: "Content \<Rightarrow> error + ClusterServiceVersion"
  FromUnstructured_Deployment :: "Content \<Rightarrow> error + Deployment"
  FromUnstructured_CatalogSource :: "Content \<Rightarrow> error + CatalogSourceT"
  regexp_MatchString :: "regex \<Rightarrow> string \<Rightarrow> error + bool"

definition updateStatus ::
  "env \<Rightarrow> state \<Rightarrow> Condition \<Rightarrow> RelatedObject list \<Rightarrow> bool \<times> state" where
  "updateStatus env s cond relObjs =
     (updateStatus_changed env (status_log s) cond relObjs,
      s\<lparr>status_log := status_log s @ [(cond, relObjs)]\<rparr>)"

section \<open>The desired-state builder\<close>

text \<open>A value between single quotes, as the messages print it.\<close>

definition quoted :: "string \<Rightarrow> string" where
  "quoted v = [CHR 0x27] @ v @ [CHR 0x27]"

text \<open>\<open>sub["namespace"].(string)\<close>: the value at a key when it is a string.\<close>

definition string_at :: "Content \<Rightarrow> string \<Rightarrow> string option" where
  "string_at m k = (case m k of Some (JStr v) \<Rightarrow> Some v | _ \<Rightarrow> None)"

definition buildSubscription :: "env \<Rightarrow> OperatorPolicy \<Rightarrow> string \<Rightarrow> error + Subscription" where
  "buildSubscription env policy defaultNS =
     (case json_Unmarshal env (Subscription_Raw (pol_Spec policy)) of
        Inl err \<Rightarrow> Inl (Wrapf ''the policy spec.subscription is invalid: '' err)
      | Inr sub \<Rightarrow>
          if string_at sub ''namespace'' = None \<and> defaultNS = []
          then Inl (ErrorNew ''namespace is required in spec.subscription'')
          else
            let ns = (case string_at sub ''namespace'' of Some n \<Rightarrow> n | None \<Rightarrow> defaultNS) in
            if IsDNS1123Label env ns \<noteq> []
            then Inl (ErrorNew (''the namespace '' @ quoted ns @
                   '' used for the subscription is not a valid namespace identifier''))
            else
              (case json_Marshal env (sub(''namespace'' := None)) of
                 Inl err \<Rightarrow> Inl (Wrapf ''the policy spec.subscription is invalid: '' err)
               | Inr subSpec \<Rightarrow>
                   (case Decode_SubscriptionSpec env subSpec of
                      Inl err \<Rightarrow> Inl (Wrapf ''the policy spec.subscription is invalid: '' err)
                    | Inr spec \<Rightarrow>
                        let subscription =
                              \<lparr> sub_GVK = subscriptionGVK, sub_Name = Package spec,
                                sub_Namespace = ns, sub_Spec = spec,
                                sub_Status = \<lparr> InstalledCSV = [], InstallPlanRef = None,
                                               Conditions = [] \<rparr> \<rparr> in
                        if \<not> (InstallPlanApproval spec = ''Manual'' \<or>
                              InstallPlanApproval spec = ''Automatic'')
                        then Inl (ErrorNew (''the policy spec.subscription.installPlanApproval (''
                               @ quoted (InstallPlanApproval spec)
                               @ '') is invalid: must be '' @ quoted ''Automatic''
                               @ '' or '' @ quoted ''Manual''))
                        else if IsEnforce (RemediationAction (pol_Spec policy))
                                \<and> length (Versions (pol_Spec policy)) > 0
                        then Inr (subscription\<lparr>sub_Spec :=
                               (sub_Spec subscription)\<lparr>InstallPlanApproval := ApprovalManual\<rparr>\<rparr>)
                        else Inr subscription)))"

definition buildOperatorGroup :: "env \<Rightarrow> OperatorPolicy \<Rightarrow> string \<Rightarrow> error + OperatorGroup" where
  "buildOperatorGroup env policy namespace =
     (let operatorGroup =
            \<lparr> og_GVK = operatorGroupGVK, og_Name = [], og_GenerateName = [],
              og_Namespace = [], og_ResourceVersion = [],
              og_Spec = \<lparr> TargetNamespaces = [], ServiceAccountName = [],
                          og_Selector = None \<rparr> \<rparr> in
      case OperatorGroup_Raw (pol_Spec policy) of
        None \<Rightarrow>
          Inr (operatorGroup\<lparr>og_Namespace := namespace, og_GenerateName := namespace @ ''-'',
                 og_Spec := (og_Spec operatorGroup)\<lparr>TargetNamespaces := []\<rparr>\<rparr>)
      | Some raw \<Rightarrow>
          (case json_Unmarshal env raw of
             Inl err \<Rightarrow> Inl (Wrapf ''the policy spec.operatorGroup is invalid: '' err)
           | Inr opGroup \<Rightarrow>
               if (case string_at opGroup ''namespace'' of
                     Some specifiedNS \<Rightarrow>
                       specifiedNS \<noteq> [] \<and> specifiedNS \<noteq> namespace \<and> namespace \<noteq> []
                   | None \<Rightarrow> False)
               then Inl (ErrorNew (''the namespace specified in spec.operatorGroup ('' @
                      quoted (the (string_at opGroup ''namespace'')) @
                      '') must match the namespace used for the subscription ('' @
                      quoted namespace @ '')''))
               else
                 (case string_at opGroup ''name'' of
                    None \<Rightarrow> Inl (ErrorNew ''name is required in spec.operatorGroup'')
                  | Some name \<Rightarrow>
                      (case json_Marshal env (opGroup(''name'' := None, ''namespace'' := None)) of
                         Inl err \<Rightarrow> Inl (Wrapf ''the policy spec.operatorGroup is invalid: '' err)
                       | Inr opGroupSpec \<Rightarrow>
                           (case Decode_OperatorGroupSpec env opGroupSpec of
                              Inl err \<Rightarrow>
                                Inl (Wrapf ''the policy spec.operatorGroup is invalid: '' err)
                            | Inr spec \<Rightarrow>
                                Inr (operatorGroup\<lparr>og_Name := name, og_Namespace := namespace,
                                       og_Spec := spec\<rparr>))))))"

text \<open>
  \<open>buildResources\<close>: the two desired objects (\<open>None\<close> for a nil pointer), whether the
  status changed, and the error of the namespace lookup.
\<close>

definition buildResources ::
  "env \<Rightarrow> OperatorPolicy \<Rightarrow> state \<Rightarrow>
     (Subscription option \<times> OperatorGroup option \<times> bool \<times> error option) \<times> state" where
  "buildResources env policy s =
     (let subRes = buildSubscription env policy (DefaultNamespace env);
          sub = (case subRes of Inl subErr \<Rightarrow> None | Inr sb \<Rightarrow> Some sb);
          validationErrors1 = (case subRes of Inl subErr \<Rightarrow> [subErr] | Inr sb \<Rightarrow> []);
          opGroupNS = (case sub of
                         Some sb \<Rightarrow> if sub_Namespace sb \<noteq> [] then sub_Namespace sb
                                    else DefaultNamespace env
                       | None \<Rightarrow> DefaultNamespace env);
          ogRes = buildOperatorGroup env policy opGroupNS;
          opGroup = (case ogRes of Inl ogErr \<Rightarrow> None | Inr og \<Rightarrow> Some og);
          validationErrors2 =
            validationErrors1 @ (case ogRes of Inl ogErr \<Rightarrow> [ogErr] | Inr og \<Rightarrow> []);
          watcher = opPolIdentifier (pol_Namespace policy) (pol_Name policy)
      in case watcher_Get env watcher namespaceGVK [] opGroupNS of
           Inl err \<Rightarrow>
             ((sub, opGroup, False, Some (Wrapf ''error getting operator namespace: '' err)), s)
         | Inr gotNamespace \<Rightarrow>
             let validationErrors3 =
                   validationErrors2 @
                   (if gotNamespace = None
                    then [ErrorNew (''the operator namespace ('' @ quoted opGroupNS @ '') does not exist'')]
                    else []);
                 (changed, s') = updateStatus env s (validationCond validationErrors3) []
             in ((sub, opGroup, changed, None), s'))"

section \<open>Unstructured objects\<close>

text \<open>
  The accessors of the \<open>unstructured\<close> package that the reconcilers call. A nested
  lookup gives the value, whether it was found, and an error when a step of the path (or
  the value) has the wrong type.
\<close>

definition accessorError :: error where
  "accessorError = ErrorNew ''accessor error''"

fun NestedFieldNoCopy :: "json \<Rightarrow> string list \<Rightarrow> json \<times> bool \<times> error option" where
  "NestedFieldNoCopy val [] = (val, True, None)"
| "NestedFieldNoCopy val (field # path) =
     (case val of
        JNull \<Rightarrow> (JNull, False, None)
      | JObj m \<Rightarrow>
          (case m field of
             None \<Rightarrow> (JNull, False, None)
           | Some v \<Rightarrow> NestedFieldNoCopy v path)
      | _ \<Rightarrow> (JNull, False, Some accessorError))"

definition NestedString :: "Content \<Rightarrow> string list \<Rightarrow> string \<times> bool \<times> error option" where
  "NestedString obj path =
     (case NestedFieldNoCopy (JObj obj) path of
        (val, found, err) \<Rightarrow>
          if \<not> found \<or> err \<noteq> None then ([], found, err)
          else (case val of
                  JStr v \<Rightarrow> (v, True, None)
                | _ \<Rightarrow> ([], False, Some accessorError)))"

text \<open>The elements of a slice when each is a string.\<close>

fun strings_of :: "json list \<Rightarrow> string list option" where
  "strings_of [] = Some []"
| "strings_of (v # vs) =
     (case v of
        JStr x \<Rightarrow> (case strings_of vs of Some xs \<Rightarrow> Some (x # xs) | None \<Rightarrow> None)
      | _ \<Rightarrow> None)"

definition NestedStringSlice ::
  "Content \<Rightarrow> string list \<Rightarrow> string list \<times> bool \<times> error option" where
  "NestedStringSlice obj path =
     (case NestedFieldNoCopy (JObj obj) path of
        (val, found, err) \<Rightarrow>
          if \<not> found \<or> err \<noteq> None then ([], found, err)
          else (case val of
                  JArr vs \<Rightarrow>
                    (case strings_of vs of
                       Some xs \<Rightarrow> (xs, True, None)
                     | None \<Rightarrow> ([], False, Some accessorError))
                | _ \<Rightarrow> ([], False, Some accessorError)))"

text \<open>
  \<open>SetNestedField\<close>: the content with the value set at the path, making the maps that are
  missing on the way, or the error when a step of the path is not a map.
\<close>

fun SetNestedField :: "Content \<Rightarrow> json \<Rightarrow> string list \<Rightarrow> error + Content" where
  "SetNestedField m v [] = Inr m"
| "SetNestedField m v [field] = Inr (m(field \<mapsto> v))"
| "SetNestedField m v (field # rest) =
     (case m field of
        None \<Rightarrow>
          (case SetNestedField Map.empty v rest of
             Inl e \<Rightarrow> Inl e
           | Inr sub \<Rightarrow> Inr (m(field \<mapsto> JObj sub)))
      | Some (JObj valMap) \<Rightarrow>
          (case SetNestedField valMap v rest of
             Inl e \<Rightarrow> Inl e
           | Inr sub \<Rightarrow> Inr (m(field \<mapsto> JObj sub)))
      | Some _ \<Rightarrow> Inl (ErrorNew ''value cannot be set because the field is not a map''))"

definition getNestedString :: "Content \<Rightarrow> string list \<Rightarrow> string" where
  "getNestedString obj path = fst (NestedString obj path)"

definition GetName :: "Content \<Rightarrow> string" where
  "GetName obj = getNestedString obj [''metadata'', ''name'']"

definition GetGenerateName :: "Content \<Rightarrow> string" where
  "GetGenerateName obj = getNestedString obj [''metadata'', ''generateName'']"

definition GetResourceVersion :: "Content \<Rightarrow> string" where
  "GetResourceVersion obj = getNestedString obj [''metadata'', ''resourceVersion'']"

record OwnerReference =
  or_APIVersion :: string
  or_Kind :: string
  or_Name :: string

fun extractOwnerReferences :: "json list \<Rightarrow> OwnerReference list" where
  "extractOwnerReferences [] = []"
| "extractOwnerReferences (v # vs) =
     (case v of
        JObj ref \<Rightarrow>
          \<lparr> or_APIVersion = getNestedString ref [''apiVersion''],
            or_Kind = getNestedString ref [''kind''],
            or_Name = getNestedString ref [''name''] \<rparr> # extractOwnerReferences vs
      | _ \<Rightarrow> extractOwnerReferences vs)"

definition GetOwnerReferences :: "Content \<Rightarrow> OwnerReference list" where
  "GetOwnerReferences obj =
     (case NestedFieldNoCopy (JObj obj) [''metadata'', ''ownerReferences''] of
        (field, found, err) \<Rightarrow>
          if \<not> found \<or> err \<noteq> None then []
          else (case field of JArr original \<Rightarrow> extractOwnerReferences original | _ \<Rightarrow> []))"

definition SetGroupVersionKind :: "Content \<Rightarrow> GroupVersionKind \<Rightarrow> Content" where
  "SetGroupVersionKind obj gvk =
     obj(''apiVersion'' \<mapsto> JStr (GroupVersion_String gvk), ''kind'' \<mapsto> JStr (Kind gvk))"

text \<open>\<open>DeepCopy\<close> of the object at an address: a new object with the same content.\<close>

definition DeepCopy :: "state \<Rightarrow> nat \<Rightarrow> nat \<times> state" where
  "DeepCopy s a =
     (next_addr s,
      s\<lparr>heap := (heap s)(next_addr s := heap s a), next_addr := Suc (next_addr s)\<rparr>)"

section \<open>Regular expressions\<close>

text \<open>
  The fragment of the regular expressions of Go that the correlation check uses:
  literals, alternation, concatenation, the end of the text (\<open>$\<close>) and the white-space
  class (\<open>\s\<close>: tab, line feed, form feed, carriage return, space). \<open>regex_rest r s\<close>
  lists what is left of \<open>s\<close> after each way of matching \<open>r\<close> at its start;
  \<open>MatchString\<close> looks for a match starting anywhere in the text.
\<close>

definition is_space :: "char \<Rightarrow> bool" where
  "is_space c = (c = CHR 0x09 \<or> c = CHR 0x0A \<or> c = CHR 0x0C \<or> c = CHR 0x0D \<or> c = CHR '' '')"

fun regex_rest :: "regex \<Rightarrow> string \<Rightarrow> string list" where
  "regex_rest (Lit l) s = (if take (length l) s = l then [drop (length l) s] else [])"
| "regex_rest (Alt a b) s = regex_rest a s @ regex_rest b s"
| "regex_rest (Seq a b) s = concat (map (regex_rest b) (regex_rest a s))"
| "regex_rest EndOfText s = (if s = [] then [[]] else [])"
| "regex_rest Whitespace s = (case s of [] \<Rightarrow> [] | c # cs \<Rightarrow> if is_space c then [cs] else [])"

fun regex_search :: "regex \<Rightarrow> string \<Rightarrow> bool" where
  "regex_search r [] = (regex_rest r [] \<noteq> [])"
| "regex_search r (c # cs) = (regex_rest r (c # cs) \<noteq> [] \<or> regex_search r cs)"

definition MatchString :: "regex \<Rightarrow> string \<Rightarrow> error + bool" where
  "MatchString pattern s = Inr (regex_search pattern s)"

section \<open>The merge engine\<close>

text \<open>
  \<open>mergeObjects\<close> works on the object at the address \<open>existing\<close>. The copy it compares
  with is its own and never leaves it, so it is a value here. The dry-run update, when it
  succeeds, writes the object the server returns into \<open>existing\<close>.
\<close>

definition mergeObjects ::
  "env \<Rightarrow> Content \<Rightarrow> nat \<Rightarrow> string \<Rightarrow> state \<Rightarrow> (bool \<times> bool \<times> error option) \<times> state" where
  "mergeObjects env desired existing complianceType s =
     (let existingObjectCopy = removeFieldsForComparison env (heap s existing);
          (errMsg, updateNeeded, merged) =
             handleKeys env desired (heap s existing) existingObjectCopy complianceType;
          s1 = s\<lparr>heap := (heap s)(existing := merged)\<rparr>
      in if errMsg \<noteq> [] then ((updateNeeded, False, Some (ErrorNew errMsg)), s1)
         else if updateNeeded then
           (let s2 = s1\<lparr>requests := requests s1 @ [DryRunUpdate (heap s1 existing)]\<rparr> in
            case client_DryRunUpdate env (heap s1 existing) of
              Inl err \<Rightarrow>
                if IsForbidden err then ((True, True, None), s2)
                else ((updateNeeded, False, Some err), s2)
            | Inr result \<Rightarrow>
                let s3 = s2\<lparr>heap := (heap s2)(existing := removeFieldsForComparison env result)\<rparr>
                in if heap s3 existing = existingObjectCopy
                   then ((False, False, None), s3)
                   else ((updateNeeded, False, None), s3))
         else ((updateNeeded, False, None), s1))"

section \<open>The cluster client\<close>

text \<open>
  \<open>r.Create\<close> and \<open>r.Update\<close>: the request is recorded, and on success the object
  the server returns replaces the argument (for an unstructured object, at its address; for
  a typed one, it is the result).
\<close>

definition r_Create_OperatorGroup ::
  "env \<Rightarrow> OperatorGroup \<Rightarrow> state \<Rightarrow> (error + OperatorGroup) \<times> state" where
  "r_Create_OperatorGroup env obj s =
     (client_Create_OperatorGroup env obj,
      s\<lparr>requests := requests s @ [Create (OperatorGroupObj obj)]\<rparr>)"

definition r_Create_Subscription ::
  "env \<Rightarrow> Subscription \<Rightarrow> state \<Rightarrow> (error + Subscription) \<times> state" where
  "r_Create_Subscription env obj s =
     (client_Create_Subscription env obj,
      s\<lparr>requests := requests s @ [Create (SubscriptionObj obj)]\<rparr>)"

definition r_Update :: "env \<Rightarrow> nat \<Rightarrow> state \<Rightarrow> error option \<times> state" where
  "r_Update env a s =
     (let s1 = s\<lparr>requests := requests s @ [Update (heap s a)]\<rparr> in
      case client_Update env (heap s a) of
        Inl err \<Rightarrow> (Some err, s1)
      | Inr result \<Rightarrow> (None, s1\<lparr>heap := (heap s1)(a := result)\<rparr>))"

section \<open>The operator-group reconciler\<close>

text \<open>The three cases of the switch on the number of operator groups found.\<close>

definition handleOpGroup_missing ::
  "env \<Rightarrow> OperatorPolicy \<Rightarrow> OperatorGroup \<Rightarrow> state \<Rightarrow>
     (Condition list \<times> bool \<times> error option) \<times> state" where
  "handleOpGroup_missing env policy desiredOpGroup s =
     (let (changed, s1) = updateStatus env s (missingWantedCond ''OperatorGroup'')
                            [missingWantedObj (OperatorGroupObj desiredOpGroup)]
      in if IsInform (RemediationAction (pol_Spec policy)) then (([], changed, None), s1)
         else
           let earlyConds =
                 (if changed then [calculateComplianceCondition env (status_log s1)] else []);
               (res, s2) = r_Create_OperatorGroup env desiredOpGroup s1
           in case res of
                Inl err \<Rightarrow>
                  (([], changed, Some (Wrapf ''error creating the OperatorGroup: '' err)), s2)
              | Inr created \<Rightarrow>
                  let (changed2, s3) =
                        updateStatus env s2 (createdCond ''OperatorGroup'')
                          [createdObj (OperatorGroupObj (created\<lparr>og_GVK := operatorGroupGVK\<rparr>))]
                  in ((earlyConds, True, None), s3))"

definition handleOpGroup_one ::
  "env \<Rightarrow> OperatorPolicy \<Rightarrow> OperatorGroup \<Rightarrow> nat \<Rightarrow> state \<Rightarrow>
     (Condition list \<times> bool \<times> error option) \<times> state" where
  "handleOpGroup_one env policy desiredOpGroup opGroup s =
     (let emptyNameMatch =
            (og_Name desiredOpGroup = [] \<and>
             GetGenerateName (heap s opGroup) = og_GenerateName desiredOpGroup)
      in
      if \<not> (GetName (heap s opGroup) = og_Name desiredOpGroup \<or> emptyNameMatch) then
        (if OperatorGroup_Raw (pol_Spec policy) = None then
           let (changed, s1) = updateStatus env s opGroupPreexistingCond
                                 [matchedObj (UnstructuredObj (heap s opGroup))]
           in (([], changed, None), s1)
         else
           let missing = missingWantedObj (OperatorGroupObj desiredOpGroup);
               badExisting = mismatchedObj (UnstructuredObj (heap s opGroup));
               (changed, s1) = updateStatus env s (mismatchCond ''OperatorGroup'')
                                 [missing, badExisting]
           in (([], changed, None), s1))
      else
        case ToUnstructured env (OperatorGroupObj desiredOpGroup) of
          Inl err \<Rightarrow>
            (([], False,
              Some (Wrapf ''error converting desired OperatorGroup to an Unstructured: '' err)), s)
        | Inr desiredUnstruct \<Rightarrow>
            let (merged, s1) = DeepCopy s opGroup;
                ((updateNeeded, skipUpdate, err), s2) =
                   mergeObjects env desiredUnstruct merged (ComplianceType (pol_Spec policy)) s1
            in case err of
                 Some e \<Rightarrow>
                   (([], False,
                     Some (Wrapf ''error checking if the OperatorGroup needs an update: '' e)), s2)
               | None \<Rightarrow>
                   if \<not> updateNeeded then
                     let (changed, s3) = updateStatus env s2 (matchesCond ''OperatorGroup'')
                                           [matchedObj (UnstructuredObj (heap s2 opGroup))]
                     in (([], changed, None), s3)
                   else if OperatorGroup_Raw (pol_Spec policy) = None then
                     let (changed, s3) = updateStatus env s2 opGroupPreexistingCond
                                           [matchedObj (UnstructuredObj (heap s2 opGroup))]
                     in (([], changed, None), s3)
                   else if IsEnforce (RemediationAction (pol_Spec policy)) \<and> skipUpdate then
                     let (changed, s3) =
                           updateStatus env s2 (mismatchCondUnfixable ''OperatorGroup'')
                             [mismatchedObj (UnstructuredObj (heap s2 opGroup))]
                     in (([], changed, None), s3)
                   else
                     let (changed, s3) =
                           updateStatus env s2 (mismatchCond ''OperatorGroup'')
                             [mismatchedObj (UnstructuredObj (heap s2 opGroup))]
                     in if IsInform (RemediationAction (pol_Spec policy))
                        then (([], changed, None), s3)
                        else
                          let earlyConds =
                                (if changed then [calculateComplianceCondition env (status_log s3)]
                                 else []);
                              desiredOpGroup2 = desiredOpGroup
                                \<lparr>og_ResourceVersion := GetResourceVersion (heap s3 opGroup)\<rparr>;
                              (uerr, s4) = r_Update env merged s3
                          in case uerr of
                               Some e \<Rightarrow>
                                 (([], changed,
                                   Some (Wrapf ''error updating the OperatorGroup: '' e)), s4)
                             | None \<Rightarrow>
                                 let (changed2, s5) =
                                       updateStatus env s4 (updatedCond ''OperatorGroup'')
                                         [updatedObj (OperatorGroupObj
                                            (desiredOpGroup2\<lparr>og_GVK := operatorGroupGVK\<rparr>))]
                                 in ((earlyConds, True, None), s5))"

definition handleOpGroup ::
  "env \<Rightarrow> OperatorPolicy \<Rightarrow> OperatorGroup option \<Rightarrow> state \<Rightarrow>
     (Condition list \<times> bool \<times> error option) \<times> state" where
  "handleOpGroup env policy desiredOpGroup s =
     (let watcher = opPolIdentifier (pol_Namespace policy) (pol_Name policy) in
      if desiredOpGroup = None \<or> og_Namespace (the desiredOpGroup) = [] then
        let (changed, s1) = updateStatus env s (invalidCausingUnknownCond ''OperatorGroup'') []
        in (([], changed, None), s1)
      else
        case watcher_List env watcher operatorGroupGVK (og_Namespace (the desiredOpGroup)) of
          Inl err \<Rightarrow> (([], False, Some (Wrapf ''error listing OperatorGroups: '' err)), s)
        | Inr foundOpGroups \<Rightarrow>
            (case foundOpGroups of
               [] \<Rightarrow> handleOpGroup_missing env policy (the desiredOpGroup) s
             | [opGroup] \<Rightarrow> handleOpGroup_one env policy (the desiredOpGroup) opGroup s
             | _ \<Rightarrow>
                 let (changed, s1) = updateStatus env s opGroupTooManyCond
                                       (opGroupTooManyObjs (map (heap s) foundOpGroups))
                 in (([], changed, None), s1)))"

section \<open>The subscription reconciler\<close>

text \<open>
  The pattern of the correlation check. The names go through \<open>regexp.QuoteMeta\<close>, so
  each stands for itself: a literal.
\<close>

definition subscription_regex :: "Subscription \<Rightarrow> regex" where
  "subscription_regex subscription =
     (let safeNs = sub_Namespace subscription;
          safeSubName = sub_Name subscription;
          safeSubNameWithNs = safeNs @ ''/'' @ safeSubName;
          safePackageName = Package (sub_Spec subscription);
          safePackageNameWithNs = safeNs @ ''/'' @ safePackageName
      in Seq (Alt (Seq (Lit ''subscription '') (Alt (Lit safeSubName) (Lit safeSubNameWithNs)))
                  (Seq (Lit ''package '') (Alt (Lit safePackageName) (Lit safePackageNameWithNs))))
             (Alt EndOfText (Alt Whitespace (Alt (Lit '','') (Lit '':'')))))"

definition messageIncludesSubscription :: "env \<Rightarrow> Subscription \<Rightarrow> string \<Rightarrow> error + bool" where
  "messageIncludesSubscription env subscription message =
     regexp_MatchString env (subscription_regex subscription) message"

definition handleSubscription_missing ::
  "env \<Rightarrow> OperatorPolicy \<Rightarrow> Subscription \<Rightarrow> state \<Rightarrow>
     (Subscription option \<times> Condition list \<times> bool \<times> error option) \<times> state" where
  "handleSubscription_missing env policy desiredSub s =
     (let (changed, s1) = updateStatus env s (missingWantedCond ''Subscription'')
                            [missingWantedObj (SubscriptionObj desiredSub)]
      in if IsInform (RemediationAction (pol_Spec policy))
         then ((Some desiredSub, [], changed, None), s1)
         else
           let earlyConds =
                 (if changed then [calculateComplianceCondition env (status_log s1)] else []);
               (res, s2) = r_Create_Subscription env desiredSub s1
           in case res of
                Inl err \<Rightarrow>
                  ((None, [], changed,
                    Some (Wrapf ''error creating the Subscription: '' err)), s2)
              | Inr created \<Rightarrow>
                  let desiredSub2 = created\<lparr>sub_GVK := subscriptionGVK\<rparr>;
                      (changed2, s3) = updateStatus env s2 (createdCond ''Subscription'')
                                         [createdObj (SubscriptionObj desiredSub2)]
                  in ((Some desiredSub2, earlyConds, True, None), s3))"

definition handleSubscription_found ::
  "env \<Rightarrow> OperatorPolicy \<Rightarrow> Subscription \<Rightarrow> nat \<Rightarrow> state \<Rightarrow>
     (Subscription option \<times> Condition list \<times> bool \<times> error option) \<times> state" where
  "handleSubscription_found env policy desiredSub foundSub s =
     (case ToUnstructured env (SubscriptionObj desiredSub) of
        Inl err \<Rightarrow>
          ((None, [], False,
            Some (Wrapf ''error converting desired Subscription to an Unstructured: '' err)), s)
      | Inr desiredUnstruct \<Rightarrow>
          let (merged, s1) = DeepCopy s foundSub;
              ((updateNeeded, skipUpdate, err), s2) =
                 mergeObjects env desiredUnstruct merged (ComplianceType (pol_Spec policy)) s1
          in case err of
               Some e \<Rightarrow>
                 ((None, [], False,
                   Some (Wrapf ''error checking if the Subscription needs an update: '' e)), s2)
             | None \<Rightarrow>
                 (case FromUnstructured_Subscription env (heap s2 merged) of
                    Inl e \<Rightarrow>
                      ((None, [], False,
                        Some (Wrapf ''error converting the retrieved Subscription to the go type: '' e)),
                       s2)
                  | Inr mergedSub \<Rightarrow>
                      if \<not> updateNeeded then
                        let subResFailed = GetCondition (Conditions (sub_Status mergedSub))
                                             SubscriptionResolutionFailed;
                            includesSubscription =
                              (sc_Status subResFailed = ConditionTrue \<and>
                               (case messageIncludesSubscription env mergedSub
                                       (sc_Message subResFailed) of
                                  Inl e \<Rightarrow> True
                                | Inr b \<Rightarrow> b))
                        in if includesSubscription then
                             let cond = RawCondition subConditionType ConditionFalse
                                          (sc_Reason subResFailed) (sc_Message subResFailed)
                                          (sc_LastTransitionTime subResFailed);
                                 (changed, s3) =
                                   updateStatus env s2 cond
                                     [nonCompObj (UnstructuredObj (heap s2 foundSub))
                                        (sc_Reason subResFailed)]
                             in ((Some mergedSub, [], changed, None), s3)
                           else
                             let (changed, s3) =
                                   updateStatus env s2 (matchesCond ''Subscription'')
                                     [matchedObj (UnstructuredObj (heap s2 foundSub))]
                             in ((Some mergedSub, [], changed, None), s3)
                      else if IsEnforce (RemediationAction (pol_Spec policy)) \<and> skipUpdate then
                        let (changed, s3) =
                              updateStatus env s2 (mismatchCondUnfixable ''Subscription'')
                                [mismatchedObj (UnstructuredObj (heap s2 foundSub))]
                        in ((Some mergedSub, [], changed, None), s3)
                      else
                        let (changed, s3) =
                              updateStatus env s2 (mismatchCond ''Subscription'')
                                [mismatchedObj (UnstructuredObj (heap s2 foundSub))]
                        in if IsInform (RemediationAction (pol_Spec policy))
                           then ((Some mergedSub, [], changed, None), s3)
                           else
                             let earlyConds =
                                   (if changed
                                    then [calculateComplianceCondition env (status_log s3)]
                                    else []);
                                 (uerr, s4) = r_Update env merged s3
                             in case uerr of
                                  Some e \<Rightarrow>
                                    ((Some mergedSub, [], changed,
                                      Some (Wrapf ''error updating the Subscription: '' e)), s4)
                                | None \<Rightarrow>
                                    let s5 = s4\<lparr>heap := (heap s4)
                                               (merged := SetGroupVersionKind (heap s4 merged)
                                                            subscriptionGVK)\<rparr>;
                                        (changed2, s6) =
                                          updateStatus env s5 (updatedCond ''Subscription'')
                                            [updatedObj (UnstructuredObj (heap s5 merged))]
                                    in ((Some mergedSub, earlyConds, True, None), s6)))"

definition handleSubscription ::
  "env \<Rightarrow> OperatorPolicy \<Rightarrow> Subscription option \<Rightarrow> state \<Rightarrow>
     (Subscription option \<times> Condition list \<times> bool \<times> error option) \<times> state" where
  "handleSubscription env policy desiredSub s =
     (let watcher = opPolIdentifier (pol_Namespace policy) (pol_Name policy) in
      case desiredSub of
        None \<Rightarrow>
          let (changed, s1) = updateStatus env s (invalidCausingUnknownCond ''Subscription'') []
          in ((None, [], changed, None), s1)
      | Some sub \<Rightarrow>
          (case watcher_Get env watcher subscriptionGVK (sub_Namespace sub) (sub_Name sub) of
             Inl err \<Rightarrow>
               ((None, [], False, Some (Wrapf ''error getting the Subscription: '' err)), s)
           | Inr None \<Rightarrow> handleSubscription_missing env policy sub s
           | Inr (Some foundSub) \<Rightarrow> handleSubscription_found env policy sub foundSub s))"

section \<open>The install-plan approver\<close>

definition InstallPlanPhaseRequiresApproval :: string where
  "InstallPlanPhaseRequiresApproval = ''RequiresApproval''"

definition InstallPlanPhaseInstalling :: string where
  "InstallPlanPhaseInstalling = ''Installing''"

text \<open>
  The constant \<open>InstallPlanFailed\<close> of the library, which the source compares the phase
  with, is a reason of the subscription conditions.
\<close>

definition InstallPlanFailed :: string where
  "InstallPlanFailed = ''InstallPlanFailed''"

text \<open>The owner-reference loop: an install plan is owned when one of its owners matches.\<close>

fun ownerMatch :: "Subscription \<Rightarrow> OwnerReference list \<Rightarrow> bool" where
  "ownerMatch sub [] = False"
| "ownerMatch sub (owner # owners) =
     (if or_Name owner = sub_Name sub \<and> or_Kind owner = Kind subscriptionGVK \<and>
         or_APIVersion owner = GroupVersion_String subscriptionGVK
      then True
      else ownerMatch sub owners)"

text \<open>The phase of a plan, empty when it cannot be determined.\<close>

definition planPhase :: "Content \<Rightarrow> string" where
  "planPhase installPlan =
     (case NestedString installPlan [''status'', ''phase''] of
        (phase, ok, err) \<Rightarrow>
          let err2 = (if \<not> ok \<and> err = None
                      then Some (ErrorNew ''the phase of the InstallPlan was not found'')
                      else err)
          in if err2 \<noteq> None then [] else phase)"

text \<open>
  The names in \<open>spec.clusterServiceVersionNames\<close> of a plan, or the error when the field
  is missing or is not a slice of strings.
\<close>

definition planCSVNames :: "Content \<Rightarrow> error + string list" where
  "planCSVNames installPlan =
     (case NestedStringSlice installPlan [''spec'', ''clusterServiceVersionNames''] of
        (csvNames, ok, err) \<Rightarrow>
          let err2 = (if \<not> ok \<and> err = None
                      then Some (ErrorNew
                        ''the clusterServiceVersionNames field of the InstallPlan was not found'')
                      else err)
          in (case err2 of Some e \<Rightarrow> Inl e | None \<Rightarrow> Inr csvNames))"

text \<open>\<open>fmt.Sprintf("%v", names)\<close> of a slice of strings.\<close>

fun join_spaces :: "string list \<Rightarrow> string" where
  "join_spaces [] = []"
| "join_spaces [x] = x"
| "join_spaces (x # xs) = x @ '' '' @ join_spaces xs"

definition Sprintf_v :: "string list \<Rightarrow> string" where
  "Sprintf_v names = ''['' @ join_spaces names @ '']''"

text \<open>
  The loop over the plans that require approval: it keeps the version of the last
  approvable plan and the list of the approvable plans.
\<close>

fun approvableLoop ::
  "string list \<Rightarrow> (nat \<Rightarrow> Content) \<Rightarrow> nat list \<Rightarrow> string \<times> nat list \<Rightarrow> string \<times> nat list" where
  "approvableLoop versions h [] acc = acc"
| "approvableLoop versions h (installPlan # rest) (approvedVersion, approvableInstallPlans) =
     (case planCSVNames (h installPlan) of
        Inl err \<Rightarrow> approvableLoop versions h rest (approvedVersion, approvableInstallPlans)
      | Inr ipCSVs \<Rightarrow>
          if length ipCSVs \<noteq> 1
          then approvableLoop versions h rest (approvedVersion, approvableInstallPlans)
          else
            let matchingCSV = (length versions = 0 \<or> hd ipCSVs \<in> set versions) in
            if matchingCSV
            then approvableLoop versions h rest
                   (hd ipCSVs, approvableInstallPlans @ [installPlan])
            else approvableLoop versions h rest (approvedVersion, approvableInstallPlans))"

text \<open>
  What the first part of \<open>handleInstallPlan\<close> collects: the plans owned by the subscription, their
  related objects, those that require approval, whether one is installing, whether the
  current plan of the subscription failed, and the versions the pending plans install.
\<close>

definition ownedInstallPlans :: "Subscription \<Rightarrow> (nat \<Rightarrow> Content) \<Rightarrow> nat list \<Rightarrow> nat list" where
  "ownedInstallPlans sub h foundInstallPlans =
     filter (\<lambda>ip. ownerMatch sub (GetOwnerReferences (h ip))) foundInstallPlans"

definition relatedInstallPlans :: "(nat \<Rightarrow> Content) \<Rightarrow> nat list \<Rightarrow> RelatedObject list" where
  "relatedInstallPlans h owned =
     map (\<lambda>ip. existingInstallPlanObj (h ip) (planPhase (h ip))) owned"

definition ipsRequiringApproval :: "(nat \<Rightarrow> Content) \<Rightarrow> nat list \<Rightarrow> nat list" where
  "ipsRequiringApproval h owned =
     filter (\<lambda>ip. planPhase (h ip) = InstallPlanPhaseRequiresApproval) owned"

definition anyInstalling :: "(nat \<Rightarrow> Content) \<Rightarrow> nat list \<Rightarrow> bool" where
  "anyInstalling h owned = list_ex (\<lambda>ip. planPhase (h ip) = InstallPlanPhaseInstalling) owned"

definition currentPlanFailed :: "Subscription \<Rightarrow> (nat \<Rightarrow> Content) \<Rightarrow> nat list \<Rightarrow> bool" where
  "currentPlanFailed sub h owned =
     list_ex (\<lambda>ip. planPhase (h ip) = InstallPlanFailed \<and>
                   InstallPlanRef (sub_Status sub) \<noteq> None \<and>
                   the (InstallPlanRef (sub_Status sub)) = GetName (h ip)) owned"

definition allUpgradeVersions :: "(nat \<Rightarrow> Content) \<Rightarrow> nat list \<Rightarrow> string list" where
  "allUpgradeVersions h pending =
     map (\<lambda>ip. Sprintf_v (case planCSVNames (h ip) of
                             Inl err \<Rightarrow> [''unknown'']
                           | Inr csvNames \<Rightarrow> csvNames)) pending"

definition handleInstallPlan ::
  "env \<Rightarrow> OperatorPolicy \<Rightarrow> Subscription option \<Rightarrow> state \<Rightarrow> (bool \<times> error option) \<times> state" where
  "handleInstallPlan env policy subopt s =
     (case subopt of
        None \<Rightarrow> (let (changed, s1) = updateStatus env s (invalidCausingUnknownCond ''InstallPlan'') []
                 in ((changed, None), s1))
      | Some sub \<Rightarrow>
          let watcher = opPolIdentifier (pol_Namespace policy) (pol_Name policy) in
          case watcher_List env watcher installPlanGVK (sub_Namespace sub) of
            Inl err \<Rightarrow> ((False, Some (Wrapf ''error listing InstallPlans: '' err)), s)
          | Inr foundInstallPlans \<Rightarrow>
              let owned = ownedInstallPlans sub (heap s) foundInstallPlans in
              if length owned = 0 then
                (let (changed, s1) = updateStatus env s noInstallPlansCond
                                       [noInstallPlansObj (sub_Namespace sub)]
                 in ((changed, None), s1))
              else
                let related = relatedInstallPlans (heap s) owned;
                    pending = ipsRequiringApproval (heap s) owned
                in
                if currentPlanFailed sub (heap s) owned then
                  (let (changed, s1) = updateStatus env s installPlanFailed related
                   in ((changed, None), s1))
                else if anyInstalling (heap s) owned then
                  (let (changed, s1) = updateStatus env s installPlanInstallingCond related
                   in ((changed, None), s1))
                else if length pending = 0 then
                  (let (changed, s1) = updateStatus env s installPlansNoApprovals related
                   in ((changed, None), s1))
                else if IsInform (RemediationAction (pol_Spec policy)) then
                  (let (changed, s1) =
                         updateStatus env s
                           (installPlanUpgradeCond (allUpgradeVersions (heap s) pending) [])
                           related
                   in ((changed, None), s1))
                else
                  let (approvedVersion, approvableInstallPlans) =
                        approvableLoop (Versions (pol_Spec policy)) (heap s) pending ([], [])
                  in
                  if length approvableInstallPlans \<noteq> 1 then
                    (let (changed, s1) =
                           updateStatus env s
                             (installPlanUpgradeCond (allUpgradeVersions (heap s) pending)
                                (map (heap s) approvableInstallPlans))
                             related
                     in ((changed, None), s1))
                  else
                    let ip = hd approvableInstallPlans in
                    case SetNestedField (heap s ip) (JBool True) [''spec'', ''approved''] of
                      Inl err \<Rightarrow> ((False, Some (Wrapf ''error approving InstallPlan: '' err)), s)
                    | Inr approved \<Rightarrow>
                        let s1 = s\<lparr>heap := (heap s)(ip := approved)\<rparr>;
                            (uerr, s2) = r_Update env ip s1
                        in case uerr of
                             Some e \<Rightarrow>
                               ((False,
                                 Some (Wrapf ''error updating approved InstallPlan: '' e)), s2)
                           | None \<Rightarrow>
                               (let (changed, s3) =
                                      updateStatus env s2
                                        (installPlanApprovedCond approvedVersion) related
                                in ((changed, None), s3)))"

section \<open>The reconcilers of the installed version, the deployments and the catalog source\<close>

definition handleCSV ::
  "env \<Rightarrow> OperatorPolicy \<Rightarrow> Subscription option \<Rightarrow> state \<Rightarrow>
     (ClusterServiceVersion option \<times> bool \<times> error option) \<times> state" where
  "handleCSV env policy subopt s =
     (case subopt of
        None \<Rightarrow> (let (changed, s1) = updateStatus env s noCSVCond [noExistingCSVObj]
                 in ((None, changed, None), s1))
      | Some sub \<Rightarrow>
          let watcher = opPolIdentifier (pol_Namespace policy) (pol_Name policy) in
          if InstalledCSV (sub_Status sub) = [] then
            (let (changed, s1) = updateStatus env s noCSVCond [noExistingCSVObj]
             in ((None, changed, None), s1))
          else
            case watcher_Get env watcher clusterServiceVersionGVK (sub_Namespace sub)
                   (InstalledCSV (sub_Status sub)) of
              Inl err \<Rightarrow> ((None, False, Some err), s)
            | Inr None \<Rightarrow>
                (let (changed, s1) =
                       updateStatus env s (missingWantedCond ''ClusterServiceVersion'')
                         [missingCSVObj (sub_Name sub) (sub_Namespace sub)]
                 in ((None, changed, None), s1))
            | Inr (Some foundCSV) \<Rightarrow>
                (case FromUnstructured_CSV env (heap s foundCSV) of
                   Inl err \<Rightarrow> ((None, False, Some err), s)
                 | Inr csv \<Rightarrow>
                     (let (changed, s1) = updateStatus env s (buildCSVCond csv) [existingCSVObj csv]
                      in ((Some csv, changed, None), s1))))"

text \<open>
  The loop over the deployments of the installed version: the related objects, the
  unavailable deployments and the number of deployments found, or the error of a lookup.
\<close>

fun deploymentLoop ::
  "env \<Rightarrow> ObjectIdentifier \<Rightarrow> string \<Rightarrow> (nat \<Rightarrow> Content) \<Rightarrow> string list \<Rightarrow>
     RelatedObject list \<times> Deployment list \<times> nat \<Rightarrow>
     error + (RelatedObject list \<times> Deployment list \<times> nat)" where
  "deploymentLoop env watcher ns h [] acc = Inr acc"
| "deploymentLoop env watcher ns h (depName # rest)
     (relatedObjects, unavailableDeployments, depNum) =
     (case watcher_Get env watcher deploymentGVK ns depName of
        Inl err \<Rightarrow> Inl (Wrapf ''error getting the Deployment: '' err)
      | Inr None \<Rightarrow>
          deploymentLoop env watcher ns h rest
            (relatedObjects @ [missingDeploymentObj depName ns], unavailableDeployments, depNum)
      | Inr (Some foundDep) \<Rightarrow>
          (case FromUnstructured_Deployment env (h foundDep) of
             Inl err \<Rightarrow>
               deploymentLoop env watcher ns h rest
                 (relatedObjects, unavailableDeployments, depNum)
           | Inr dep \<Rightarrow>
               deploymentLoop env watcher ns h rest
                 (relatedObjects @ [existingDeploymentObj dep],
                  (if UnavailableReplicas dep > 0 then unavailableDeployments @ [dep]
                   else unavailableDeployments),
                  depNum + 1)))"

definition handleDeployment ::
  "env \<Rightarrow> OperatorPolicy \<Rightarrow> ClusterServiceVersion option \<Rightarrow> state \<Rightarrow>
     (bool \<times> error option) \<times> state" where
  "handleDeployment env policy csvopt s =
     (case csvopt of
        None \<Rightarrow> (let (changed, s1) = updateStatus env s noDeploymentsCond [noExistingDeploymentObj]
                 in ((changed, None), s1))
      | Some csv \<Rightarrow>
          let watcher = opPolIdentifier (pol_Namespace policy) (pol_Name policy) in
          case deploymentLoop env watcher (csv_Namespace csv) (heap s) (DeploymentSpecs csv)
                 ([], [], 0) of
            Inl err \<Rightarrow> ((False, Some err), s)
          | Inr (relatedObjects, unavailableDeployments, depNum) \<Rightarrow>
              (let (changed, s1) =
                     updateStatus env s (buildDeploymentCond (depNum > 0) unavailableDeployments)
                       relatedObjects
               in ((changed, None), s1)))"

definition handleCatalogSource ::
  "env \<Rightarrow> OperatorPolicy \<Rightarrow> Subscription option \<Rightarrow> state \<Rightarrow>
     (bool \<times> error option) \<times> state" where
  "handleCatalogSource env policy subopt s =
     (let watcher = opPolIdentifier (pol_Namespace policy) (pol_Name policy) in
      case subopt of
        None \<Rightarrow>
          (let (changed, s1) = updateStatus env s (invalidCausingUnknownCond ''CatalogSource'') []
           in ((changed, None), s1))
      | Some subscription \<Rightarrow>
          let catalogName = CatalogSource (sub_Spec subscription);
              catalogNS = CatalogSourceNamespace (sub_Spec subscription)
          in
          case watcher_Get env watcher catalogSrcGVK catalogNS catalogName of
            Inl err \<Rightarrow> ((False, Some (Wrapf ''error getting CatalogSource: '' err)), s)
          | Inr None \<Rightarrow>
              (let (changed, s1) =
                     updateStatus env s (catalogSourceFindCond True True catalogName)
                       [catalogSourceObj catalogName catalogNS True True]
               in ((changed, None), s1))
          | Inr (Some foundCatalogSrc) \<Rightarrow>
              let (catalogSrcUnstruct, s1) = DeepCopy s foundCatalogSrc in
              case FromUnstructured_CatalogSource env (heap s1 catalogSrcUnstruct) of
                Inl err \<Rightarrow>
                  ((False,
                    Some (Wrapf
                      ''error converting the retrieved CatalogSource to the Go type: '' err)), s1)
              | Inr catalogSrc \<Rightarrow>
                  (case GRPCConnectionState catalogSrc of
                     None \<Rightarrow>
                       (let (changed, s2) =
                              updateStatus env s1 catalogSourceUnknownCond
                                [catalogSrcUnknownObj catalogName catalogNS]
                        in ((changed, None), s2))
                   | Some CatalogSrcState \<Rightarrow>
                       let isUnhealthy = (CatalogSrcState \<noteq> CatalogSourceReady);
                           (changed, s2) =
                             updateStatus env s1 (catalogSourceFindCond isUnhealthy False catalogName)
                               [catalogSourceObj catalogName catalogNS isUnhealthy False]
                       in ((changed, None), s2)))"

section \<open>The pipeline and the entry point\<close>

text \<open>
  \<open>handleResources\<close>: the compliance conditions to emit, whether the status changed, and
  the error of the stage that failed.
\<close>

definition handleResources ::
  "env \<Rightarrow> OperatorPolicy \<Rightarrow> state \<Rightarrow> (Condition list \<times> bool \<times> error option) \<times> state" where
  "handleResources env policy s =
     (let earlyComplianceEvents0 = [];
          ((desiredSub, desiredOG, changed0, err0), s0) = buildResources env policy s;
          condChanged0 = changed0
      in case err0 of
           Some err \<Rightarrow> ((earlyComplianceEvents0, condChanged0, Some err), s0)
         | None \<Rightarrow>
      let ((earlyConds1, changed1, err1), s1) = handleOpGroup env policy desiredOG s0;
          earlyComplianceEvents1 = earlyComplianceEvents0 @ earlyConds1;
          condChanged1 = (condChanged0 \<or> changed1)
      in case err1 of
           Some err \<Rightarrow> ((earlyComplianceEvents1, condChanged1, Some err), s1)
         | None \<Rightarrow>
      let ((subscription, earlyConds2, changed2, err2), s2) =
            handleSubscription env policy desiredSub s1;
          earlyComplianceEvents2 = earlyComplianceEvents1 @ earlyConds2;
          condChanged2 = (condChanged1 \<or> changed2)
      in case err2 of
           Some err \<Rightarrow> ((earlyComplianceEvents2, condChanged2, Some err), s2)
         | None \<Rightarrow>
      let ((changed3, err3), s3) = handleInstallPlan env policy subscription s2;
          condChanged3 = (condChanged2 \<or> changed3)
      in case err3 of
           Some err \<Rightarrow> ((earlyComplianceEvents2, condChanged3, Some err), s3)
         | None \<Rightarrow>
      let ((csv, changed4, err4), s4) = handleCSV env policy subscription s3;
          condChanged4 = (condChanged3 \<or> changed4)
      in case err4 of
           Some err \<Rightarrow> ((earlyComplianceEvents2, condChanged4, Some err), s4)
         | None \<Rightarrow>
      let ((changed5, err5), s5) = handleDeployment env policy csv s4;
          condChanged5 = (condChanged4 \<or> changed5)
      in case err5 of
           Some err \<Rightarrow> ((earlyComplianceEvents2, condChanged5, Some err), s5)
         | None \<Rightarrow>
      let ((changed6, err6), s6) = handleCatalogSource env policy subscription s5;
          condChanged6 = (condChanged5 \<or> changed6)
      in case err6 of
           Some err \<Rightarrow> ((earlyComplianceEvents2, condChanged6, Some err), s6)
         | None \<Rightarrow> ((earlyComplianceEvents2, condChanged6, None), s6))"

text \<open>The loop that emits the compliance events and collects its errors.\<close>

fun emitLoop :: "env \<Rightarrow> Condition list \<Rightarrow> error list \<times> state \<Rightarrow> error list \<times> state" where
  "emitLoop env [] acc = acc"
| "emitLoop env (cond # conds) (errs, s) =
     emitLoop env conds
       (case emitComplianceEvent env cond of
          Some err \<Rightarrow> errs @ [err]
        | None \<Rightarrow> errs,
        s\<lparr>emitted := emitted s @ [cond]\<rparr>)"

text \<open>
  \<open>Reconcile\<close> for the request with the given namespace and name: the error it returns.
  The error of \<open>RemoveWatcher\<close> and that of the deferred \<open>EndQueryBatch\<close> are only
  logged.
\<close>

definition Reconcile :: "env \<Rightarrow> string \<Rightarrow> string \<Rightarrow> state \<Rightarrow> error option \<times> state" where
  "Reconcile env reqNamespace reqName s =
     (let watcher = opPolIdentifier reqNamespace reqName in
      case client_Get env reqNamespace reqName of
        Inl err \<Rightarrow>
          if IsNotFound err
          then (let ignored = RemoveWatcher env watcher in (None, s))
          else (Some err, s)
      | Inr policy \<Rightarrow>
          (case StartQueryBatch env watcher of
             Some err \<Rightarrow> (Some err, s)
           | None \<Rightarrow>
               let errs0 = [];
                   ((conditionsToEmit, conditionChanged, err), s1) = handleResources env policy s;
                   errs1 = (case err of Some e \<Rightarrow> errs0 @ [e] | None \<Rightarrow> errs0);
                   (conditionsToEmit2, errs2, s2) =
                     (if conditionChanged then
                        (conditionsToEmit @ [calculateComplianceCondition env (status_log s1)],
                         (case client_StatusUpdate env (status_log s1) of
                            Some e \<Rightarrow> errs1 @ [e]
                          | None \<Rightarrow> errs1),
                         s1\<lparr>requests := requests s1 @ [StatusUpdate (status_log s1)]\<rparr>)
                      else (conditionsToEmit, errs1, s1));
                   (errs3, s3) = emitLoop env conditionsToEmit2 (errs2, s2)
               in (NewAggregate errs3, s3)))"

section \<open>An example cluster\<close>

text \<open>
  A small cluster to run the reconcilers on: nothing is watched yet, every write
  succeeds and returns the object sent, no key needs an update, and regular expressions
  are matched as above.
\<close>

definition example_spec :: SubscriptionSpec where
  "example_spec =
     \<lparr> CatalogSource = ''operatorhubio-catalog'', CatalogSourceNamespace = ''olm'',
       Package = ''gatekeeper-operator-product'', Channel = ''stable'', StartingCSV = [],
       InstallPlanApproval = ''Automatic'', Config = None \<rparr>"

definition example_sub :: Subscription where
  "example_sub =
     \<lparr> sub_GVK = subscriptionGVK, sub_Name = ''gatekeeper-operator-product'',
       sub_Namespace = ''operators'', sub_Spec = example_spec,
       sub_Status = \<lparr> InstalledCSV = [], InstallPlanRef = None, Conditions = [] \<rparr> \<rparr>"

definition example_og :: OperatorGroup where
  "example_og =
     \<lparr> og_GVK = operatorGroupGVK, og_Name = ''og-single'', og_GenerateName = [],
       og_Namespace = ''operators'', og_ResourceVersion = [],
       og_Spec = \<lparr> TargetNamespaces = [], ServiceAccountName = [], og_Selector = None \<rparr> \<rparr>"

definition example_env :: env where
  "example_env =
     \<lparr> DefaultNamespace = [],
       watcher_Get = (\<lambda>w g ns n. Inr None),
       watcher_List = (\<lambda>w g ns. Inr []),
       RemoveWatcher = (\<lambda>w. None),
       StartQueryBatch = (\<lambda>w. None),
       EndQueryBatch = (\<lambda>w. None),
       client_Get = (\<lambda>ns n. Inl (ApiStatusError StatusReasonNotFound ''not found'')),
       client_Create_OperatorGroup = (\<lambda>og. Inr og),
       client_Create_Subscription = (\<lambda>sub. Inr sub),
       client_Update = (\<lambda>obj. Inr obj),
       client_DryRunUpdate = (\<lambda>obj. Inr obj),
       client_StatusUpdate = (\<lambda>st. None),
       emitComplianceEvent = (\<lambda>c. None),
       updateStatus_changed = (\<lambda>st c rel. True),
       calculateComplianceCondition =
         (\<lambda>st. RawCondition ''Compliant'' ConditionFalse ''NonCompliant'' [] None),
       handleKeys = (\<lambda>desired existing existingCopy ct. ([], False, existing)),
       removeFieldsForComparison = (\<lambda>obj. obj),
       json_Unmarshal = (\<lambda>raw. Inr (Map.empty(''namespace'' \<mapsto> JStr ''operators''))),
       json_Marshal = (\<lambda>m. Inr []),
       Decode_SubscriptionSpec = (\<lambda>raw. Inr example_spec),
       Decode_OperatorGroupSpec =
         (\<lambda>raw. Inr \<lparr> TargetNamespaces = [], ServiceAccountName = [], og_Selector = None \<rparr>),
       IsDNS1123Label = (\<lambda>ns. []),
       ToUnstructured = (\<lambda>obj. Inr Map.empty),
       FromUnstructured_Subscription = (\<lambda>obj. Inr example_sub),
       FromUnstructured_CSV = (\<lambda>obj. Inl (ErrorNew ''not a ClusterServiceVersion'')),
       FromUnstructured_Deployment = (\<lambda>obj. Inl (ErrorNew ''not a Deployment'')),
       FromUnstructured_CatalogSource = (\<lambda>obj. Inl (ErrorNew ''not a CatalogSource'')),
       regexp_MatchString = MatchString \<rparr>"

definition example_policy :: OperatorPolicy where
  "example_policy =
     \<lparr> pol_Name = ''oppol'', pol_Namespace = ''managed'',
       pol_Spec = \<lparr> RemediationAction = Enforce, ComplianceType = ''musthave'',
                    Subscription_Raw = ''{}'', OperatorGroup_Raw = Some ''{}'',
                    Versions = [''gatekeeper-operator-product.v3.11.1''] \<rparr> \<rparr>"

definition example_state :: state where
  "example_state =
     \<lparr> heap = (\<lambda>a. Map.empty), next_addr = 0, status_log = [], requests = [], emitted = [] \<rparr>"

text \<open>
  Objects in the watch cache of the example: an operator group with the name the example
  policy asks for, an operator group as the console generates it, and a subscription.
\<close>

definition example_og_content :: Content where
  "example_og_content =
     [''metadata'' \<mapsto> JObj [''name'' \<mapsto> JStr ''og-single'',
                                ''namespace'' \<mapsto> JStr ''operators'',
                                ''resourceVersion'' \<mapsto> JStr ''41'']]"

definition generated_og_content :: Content where
  "generated_og_content =
     [''metadata'' \<mapsto> JObj [''name'' \<mapsto> JStr ''operators-x7k2p'',
                                ''generateName'' \<mapsto> JStr ''operators-'',
                                ''namespace'' \<mapsto> JStr ''operators'']]"

definition example_sub_content :: Content where
  "example_sub_content =
     [''metadata'' \<mapsto> JObj [''name'' \<mapsto> JStr ''gatekeeper-operator-product'',
                                ''namespace'' \<mapsto> JStr ''operators'']]"

definition example_cache :: "nat \<Rightarrow> Content" where
  "example_cache =
     (\<lambda>a. Map.empty)(0 := example_og_content, 1 := generated_og_content,
                      2 := example_sub_content)"

definition example_cluster :: state where
  "example_cluster =
     \<lparr> heap = example_cache, next_addr = 3, status_log = [], requests = [], emitted = [] \<rparr>"

text \<open>The example policy without an operator-group fragment, and the group built for it.\<close>

definition nogroup_policy :: OperatorPolicy where
  "nogroup_policy =
     example_policy\<lparr>pol_Spec := (pol_Spec example_policy)\<lparr>OperatorGroup_Raw := None\<rparr>\<rparr>"

definition default_og :: OperatorGroup where
  "default_og =
     \<lparr> og_GVK = operatorGroupGVK, og_Name = [], og_GenerateName = ''operators-'',
       og_Namespace = ''operators'', og_ResourceVersion = [],
       og_Spec = \<lparr> TargetNamespaces = [], ServiceAccountName = [], og_Selector = None \<rparr> \<rparr>"

text \<open>
  A cluster whose server rejects every dry-run update as forbidden, while the key
  comparison asks for an update; the watcher finds the subscription and, in the namespace,
  the operator group with the name the example policy asks for.
\<close>

definition forbidden_env :: env where
  "forbidden_env =
     example_env
       \<lparr> watcher_Get := (\<lambda>w g ns n. Inr (Some 2)),
         watcher_List := (\<lambda>w g ns. Inr [0]),
         client_DryRunUpdate :=
           (\<lambda>obj. Inl (ApiStatusError StatusReasonForbidden ''field is immutable'')),
         handleKeys := (\<lambda>desired existing existingCopy ct. ([], True, existing)) \<rparr>"

text \<open>The same cluster, with the generated operator group alone in the namespace.\<close>

definition forbidden_generated_env :: env where
  "forbidden_generated_env = forbidden_env\<lparr>watcher_List := (\<lambda>w g ns. Inr [1])\<rparr>"

text \<open>
  A cluster where the key comparison asks for an update and the server returns the object
  as it was sent.
\<close>

definition defaulting_env :: env where
  "defaulting_env =
     example_env\<lparr>handleKeys := (\<lambda>desired existing existingCopy ct. ([], True, existing))\<rparr>"

text \<open>The example cluster with both operator groups in the namespace.\<close>

definition two_groups_env :: env where
  "two_groups_env = example_env\<lparr>watcher_List := (\<lambda>w g ns. Inr [0, 1])\<rparr>"

text \<open>
  A subscription for the package gatekeeper-operator-product whose status carries the
  resolution failure of the namespace, caused by another subscription, for the package
  gatekeeper-operator.
\<close>

definition operator_message :: string where
  "operator_message = ''no operators found in package gatekeeper-operator in the catalog referenced by subscription gatekeeper-operator''"

definition resolution_failure :: SubscriptionCondition where
  "resolution_failure =
     \<lparr> sc_Type = ''ResolutionFailed'', sc_Status = ConditionTrue,
       sc_Reason = ''ConstraintsNotSatisfiable'', sc_Message = operator_message,
       sc_LastTransitionTime = Some 1700000000 \<rparr>"

definition unresolved_sub :: Subscription where
  "unresolved_sub =
     example_sub\<lparr>sub_Status := (sub_Status example_sub)\<lparr>Conditions := [resolution_failure]\<rparr>\<rparr>"

text \<open>
  The cluster where the subscription is found with that status and matches the policy,
  and the same cluster with a regular-expression library that fails.
\<close>

definition unresolved_env :: env where
  "unresolved_env =
     example_env
       \<lparr> watcher_Get := (\<lambda>w g ns n. Inr (Some 2)),
         FromUnstructured_Subscription := (\<lambda>obj. Inr unresolved_sub) \<rparr>"

definition failing_regexp_env :: env where
  "failing_regexp_env =
     unresolved_env\<lparr>regexp_MatchString := (\<lambda>re s. Inl (ErrorNew ''error parsing regexp''))\<rparr>"

text \<open>
  A cluster where the found subscription and operator group lack a field that the policy
  wants: the key comparison merges it in and asks for an update, and the server accepts
  the dry run and the update.
\<close>

definition updating_env :: env where
  "updating_env =
     example_env
       \<lparr> watcher_Get := (\<lambda>w g ns n. Inr (Some 2)),
         watcher_List := (\<lambda>w g ns. Inr [0]),
         handleKeys := (\<lambda>desired existing existingCopy ct.
                          ([], True, existing(''spec'' \<mapsto> JStr ''desired''))) \<rparr>"

text \<open>
  The subscription for the package gatekeeper-operator, and the resolution failure that
  names the package gatekeeper-operator-product.
\<close>

definition gatekeeper_sub :: Subscription where
  "gatekeeper_sub =
     example_sub\<lparr>sub_Name := ''gatekeeper-operator'',
                  sub_Spec := example_spec\<lparr>Package := ''gatekeeper-operator''\<rparr>\<rparr>"

definition product_message :: string where
  "product_message = ''no operators found in package gatekeeper-operator-product in the catalog referenced by subscription gatekeeper-operator-product''"

section \<open>The correlation check in the words of the specification\<close>

text \<open>
  After the name the text ends, or a white-space character, a comma or a colon follows.
\<close>

definition boundary :: "string \<Rightarrow> bool" where
  "boundary rest =
     (case rest of [] \<Rightarrow> True | c # cs \<Rightarrow> is_space c \<or> c = CHR '','' \<or> c = CHR '':'')"

text \<open>
  A message mentions a subscription when it contains the word subscription followed by
  the name of the subscription, or the word package followed by the name of its package,
  each with or without the namespace in front, ending at a boundary.
\<close>

definition mentions :: "Subscription \<Rightarrow> string \<Rightarrow> bool" where
  "mentions subscription message =
     (\<exists>pre target rest.
        message = pre @ target @ rest \<and> boundary rest \<and>
        (target = ''subscription '' @ sub_Name subscription \<or>
         target = ''subscription '' @ sub_Namespace subscription @ ''/'' @ sub_Name subscription \<or>
         target = ''package '' @ Package (sub_Spec subscription) \<or>
         target = ''package '' @ sub_Namespace subscription @ ''/'' @
                    Package (sub_Spec subscription)))"

section \<open>Approvable install plans in the words of the specification\<close>

text \<open>
  A plan is approvable when its list of target versions has exactly one element and that
  element is in the list of acceptable versions of the policy, or that list is empty.
\<close>

definition approvable :: "string list \<Rightarrow> Content \<Rightarrow> bool" where
  "approvable versions installPlan =
     (case planCSVNames installPlan of
        Inl err \<Rightarrow> False
      | Inr ipCSVs \<Rightarrow> length ipCSVs = 1 \<and> (versions = [] \<or> hd ipCSVs \<in> set versions))"

text \<open>
  Install plans of the example subscription: each requires approval and installs one
  version; the example policy accepts the first version only.
\<close>

definition plan_content :: "string \<Rightarrow> string list \<Rightarrow> string \<Rightarrow> Content" where
  "plan_content name csvs phase =
     [''metadata'' \<mapsto>
        JObj [''name'' \<mapsto> JStr name,
              ''ownerReferences'' \<mapsto>
                JArr [JObj [''apiVersion'' \<mapsto> JStr ''operators.coreos.com/v1alpha1'',
                            ''kind'' \<mapsto> JStr ''Subscription'',
                            ''name'' \<mapsto> JStr ''gatekeeper-operator-product'']]],
      ''spec'' \<mapsto> JObj [''clusterServiceVersionNames'' \<mapsto> JArr (map JStr csvs),
                          ''approved'' \<mapsto> JBool False],
      ''status'' \<mapsto> JObj [''phase'' \<mapsto> JStr phase]]"

definition plan_a :: Content where
  "plan_a = plan_content ''install-a'' [''gatekeeper-operator-product.v3.11.1'']
              ''RequiresApproval''"

definition plan_b :: Content where
  "plan_b = plan_content ''install-b'' [''gatekeeper-operator-product.v3.12.0'']
              ''RequiresApproval''"

definition plans_cluster :: state where
  "plans_cluster =
     example_cluster\<lparr>heap := example_cache(3 := plan_a, 4 := plan_b), next_addr := 5\<rparr>"

definition plans_env :: env where
  "plans_env = example_env\<lparr>watcher_List := (\<lambda>w g ns. Inr [3, 4])\<rparr>"

text \<open>The example policy with no restriction on the versions.\<close>

definition any_version_policy :: OperatorPolicy where
  "any_version_policy =
     example_policy\<lparr>pol_Spec := (pol_Spec example_policy)\<lparr>Versions := []\<rparr>\<rparr>"

text \<open>
  A cluster where the namespace of the operator exists and listing fails: the policy
  without an operator-group fragment is the one to reconcile, the subscription does not
  exist yet, and every list request of the watcher returns an error.
\<close>

definition namespace_content :: Content where
  "namespace_content = [''metadata'' \<mapsto> JObj [''name'' \<mapsto> JStr ''operators'']]"

definition listing_cluster :: state where
  "listing_cluster =
     example_cluster\<lparr>heap := example_cache(3 := namespace_content), next_addr := 4\<rparr>"

definition listing_error :: error where
  "listing_error = ApiStatusError StatusReasonOther ''the server is currently unable to handle the request''"

definition listing_fails_env :: env where
  "listing_fails_env =
     example_env
       \<lparr> watcher_Get := (\<lambda>w g ns n. if g = namespaceGVK then Inr (Some 3) else Inr None),
         watcher_List := (\<lambda>w g ns. Inl listing_error),
         client_Get := (\<lambda>ns n. Inr nogroup_policy) \<rparr>"

text \<open>The subscription built for the enforcing example policy.\<close>

definition enforced_sub :: Subscription where
  "enforced_sub = example_sub\<lparr>sub_Spec := example_spec\<lparr>InstallPlanApproval := ''Manual''\<rparr>\<rparr>"

section \<open>Properties\<close>

subsection \<open>The approval mode of the desired subscription\<close>

text \<open>
  C3. For every policy whose remediation action is enforce and whose list of versions is
  not empty, the subscription that \<open>buildSubscription\<close> builds has the install-plan
  approval Manual, whatever the decoded fragment says (the decoder, the parsed fragment and
  the default namespace are arbitrary).
\<close>

theorem buildSubscription_enforce_versions_Manual:
  assumes "IsEnforce (RemediationAction (pol_Spec policy))"
    and "Versions (pol_Spec policy) \<noteq> []"
    and "buildSubscription env policy defaultNS = Inr subscription"
  shows "InstallPlanApproval (sub_Spec subscription) = ApprovalManual"
  using assms
  by (auto simp: buildSubscription_def Let_def split: sum.splits if_splits)

text \<open>
  On the example cluster the fragment decodes to the approval Automatic, and the
  subscription built for the enforcing example policy has Manual.
\<close>

theorem buildSubscription_enforce_versions_Manual_witness:
  "IsEnforce (RemediationAction (pol_Spec example_policy)) \<and>
   Versions (pol_Spec example_policy) \<noteq> [] \<and>
   Decode_SubscriptionSpec example_env [] = Inr example_spec \<and>
   InstallPlanApproval example_spec = ''Automatic'' \<and>
   (\<exists>sub. buildSubscription example_env example_policy [] = Inr sub \<and>
          InstallPlanApproval (sub_Spec sub) = ''Manual'')"
proof -
  have enf: "IsEnforce (RemediationAction (pol_Spec example_policy))"
    by (simp add: example_policy_def IsEnforce_def)
  have vs: "Versions (pol_Spec example_policy) \<noteq> []"
    by (simp add: example_policy_def)
  have run: "buildSubscription example_env example_policy [] =
               Inr (example_sub\<lparr>sub_Spec := example_spec\<lparr>InstallPlanApproval := ApprovalManual\<rparr>\<rparr>)"
    by (simp add: buildSubscription_def example_env_def example_policy_def example_sub_def
        example_spec_def string_at_def IsEnforce_def Let_def)
  from buildSubscription_enforce_versions_Manual [OF enf vs run] enf vs run
  show ?thesis
    by (simp add: ApprovalManual_def example_env_def example_spec_def)
qed

subsection \<open>The merge engine\<close>

lemma mergeObjects_forbidden:
  assumes "handleKeys env desired (heap s existing)
             (removeFieldsForComparison env (heap s existing)) ct = ([], True, merged)"
    and "client_DryRunUpdate env merged = Inl err"
    and "IsForbidden err"
  shows "fst (mergeObjects env desired existing ct s) = (True, True, None)"
  using assms by (simp add: mergeObjects_def Let_def)

lemma mergeObjects_frame:
  "a \<noteq> existing \<Longrightarrow> heap (snd (mergeObjects env desired existing ct s)) a = heap s a"
  by (simp add: mergeObjects_def Let_def split: prod.splits sum.splits)

lemma mergeObjects_next_addr:
  "next_addr (snd (mergeObjects env desired existing ct s)) = next_addr s"
  by (simp add: mergeObjects_def Let_def split: prod.splits sum.splits)

text \<open>
  C5. When the key comparison reports that an update is needed (and no error), the dry-run
  update succeeds, and its result with the volatile fields removed equals the original
  with the volatile fields removed, \<open>mergeObjects\<close> returns that no update is needed:
  \<open>(false, false, nil)\<close>.
\<close>

theorem mergeObjects_dry_run_identical:
  assumes "handleKeys env desired (heap s existing)
             (removeFieldsForComparison env (heap s existing)) ct = ([], True, merged)"
    and "client_DryRunUpdate env merged = Inr result"
    and "removeFieldsForComparison env result = removeFieldsForComparison env (heap s existing)"
  shows "fst (mergeObjects env desired existing ct s) = (False, False, None)"
  using assms by (simp add: mergeObjects_def Let_def)

text \<open>
  On the cluster where the key comparison asks for an update of the cached operator group
  and the server returns the object unchanged, no update is needed.
\<close>

theorem mergeObjects_dry_run_identical_witness:
  "handleKeys defaulting_env Map.empty (heap example_cluster 0)
     (removeFieldsForComparison defaulting_env (heap example_cluster 0)) ''musthave''
     = ([], True, example_og_content) \<and>
   client_DryRunUpdate defaulting_env example_og_content = Inr example_og_content \<and>
   fst (mergeObjects defaulting_env Map.empty 0 ''musthave'' example_cluster)
     = (False, False, None)"
proof -
  have keys: "handleKeys defaulting_env Map.empty (heap example_cluster 0)
                (removeFieldsForComparison defaulting_env (heap example_cluster 0)) ''musthave''
              = ([], True, example_og_content)"
    by (simp add: defaulting_env_def example_env_def example_cluster_def example_cache_def)
  have dry: "client_DryRunUpdate defaulting_env example_og_content = Inr example_og_content"
    by (simp add: defaulting_env_def example_env_def)
  have same: "removeFieldsForComparison defaulting_env example_og_content =
              removeFieldsForComparison defaulting_env (heap example_cluster 0)"
    by (simp add: defaulting_env_def example_env_def example_cluster_def example_cache_def)
  from mergeObjects_dry_run_identical [OF keys dry same] keys dry
  show ?thesis by simp
qed

subsection \<open>A forbidden dry-run update\<close>

lemma handleSubscription_unfixable:
  assumes enf: "IsEnforce (RemediationAction (pol_Spec policy))"
    and get: "watcher_Get env (opPolIdentifier (pol_Namespace policy) (pol_Name policy))
                subscriptionGVK (sub_Namespace sub) (sub_Name sub) = Inr (Some a)"
    and alloc: "a < next_addr s"
    and conv: "ToUnstructured env (SubscriptionObj sub) = Inr d"
    and keys: "handleKeys env d (heap s a) (removeFieldsForComparison env (heap s a))
                 (ComplianceType (pol_Spec policy)) = ([], True, merged)"
    and dry: "client_DryRunUpdate env merged = Inl err" "IsForbidden err"
    and typed: "FromUnstructured_Subscription env merged = Inr mergedSub"
  shows "fst (handleSubscription env policy (Some sub) s) =
           (Some mergedSub, [],
            updateStatus_changed env (status_log s) (mismatchCondUnfixable ''Subscription'')
              [mismatchedObj (UnstructuredObj (heap s a))], None) \<and>
         status_log (snd (handleSubscription env policy (Some sub) s)) =
           status_log s @ [(mismatchCondUnfixable ''Subscription'',
                            [mismatchedObj (UnstructuredObj (heap s a))])] \<and>
         requests (snd (handleSubscription env policy (Some sub) s)) =
           requests s @ [DryRunUpdate merged]"
  using assms
  by (simp add: handleSubscription_def handleSubscription_found_def DeepCopy_def
      mergeObjects_def updateStatus_def Let_def)

lemma handleOpGroup_unfixable:
  assumes enf: "IsEnforce (RemediationAction (pol_Spec policy))"
    and spec: "OperatorGroup_Raw (pol_Spec policy) = Some raw"
    and ns: "og_Namespace og \<noteq> []"
    and list: "watcher_List env (opPolIdentifier (pol_Namespace policy) (pol_Name policy))
                 operatorGroupGVK (og_Namespace og) = Inr [a]"
    and alloc: "a < next_addr s"
    and name: "GetName (heap s a) = og_Name og \<or>
               (og_Name og = [] \<and> GetGenerateName (heap s a) = og_GenerateName og)"
    and conv: "ToUnstructured env (OperatorGroupObj og) = Inr d"
    and keys: "handleKeys env d (heap s a) (removeFieldsForComparison env (heap s a))
                 (ComplianceType (pol_Spec policy)) = ([], True, merged)"
    and dry: "client_DryRunUpdate env merged = Inl err" "IsForbidden err"
  shows "fst (handleOpGroup env policy (Some og) s) =
           ([], updateStatus_changed env (status_log s) (mismatchCondUnfixable ''OperatorGroup'')
              [mismatchedObj (UnstructuredObj (heap s a))], None) \<and>
         status_log (snd (handleOpGroup env policy (Some og) s)) =
           status_log s @ [(mismatchCondUnfixable ''OperatorGroup'',
                            [mismatchedObj (UnstructuredObj (heap s a))])] \<and>
         requests (snd (handleOpGroup env policy (Some og) s)) =
           requests s @ [DryRunUpdate merged]"
  using assms
  by (auto simp add: handleOpGroup_def handleOpGroup_one_def DeepCopy_def
      mergeObjects_def updateStatus_def Let_def)

lemma handleOpGroup_preexisting:
  assumes spec: "OperatorGroup_Raw (pol_Spec policy) = None"
    and ns: "og_Namespace og \<noteq> []"
    and list: "watcher_List env (opPolIdentifier (pol_Namespace policy) (pol_Name policy))
                 operatorGroupGVK (og_Namespace og) = Inr [a]"
    and alloc: "a < next_addr s"
    and name: "GetName (heap s a) = og_Name og \<or>
               (og_Name og = [] \<and> GetGenerateName (heap s a) = og_GenerateName og)"
    and conv: "ToUnstructured env (OperatorGroupObj og) = Inr d"
    and keys: "handleKeys env d (heap s a) (removeFieldsForComparison env (heap s a))
                 (ComplianceType (pol_Spec policy)) = ([], True, merged)"
    and dry: "client_DryRunUpdate env merged = Inl err" "IsForbidden err"
  shows "fst (handleOpGroup env policy (Some og) s) =
           ([], updateStatus_changed env (status_log s) opGroupPreexistingCond
              [matchedObj (UnstructuredObj (heap s a))], None) \<and>
         status_log (snd (handleOpGroup env policy (Some og) s)) =
           status_log s @ [(opGroupPreexistingCond, [matchedObj (UnstructuredObj (heap s a))])] \<and>
         requests (snd (handleOpGroup env policy (Some og) s)) =
           requests s @ [DryRunUpdate merged]"
  using assms
  by (auto simp add: handleOpGroup_def handleOpGroup_one_def DeepCopy_def
      mergeObjects_def updateStatus_def Let_def)

text \<open>
  C4, as the code has it. When the key comparison asks for an update and the server
  rejects the dry-run update as forbidden, \<open>mergeObjects\<close> returns
  \<open>(true, true, nil)\<close>. In enforce mode the subscription reconciler then reports the
  mismatched-unfixable condition, sends no update beyond the dry run and returns no error,
  provided the merged object converts to a typed subscription; the operator-group
  reconciler does the same when the policy specifies an operator group. When the policy
  specifies none, the operator-group reconciler reports the pre-existing operator group
  instead.
\<close>

theorem forbidden_dry_run_reported_unfixable:
  assumes enf: "IsEnforce (RemediationAction (pol_Spec policy))"
    and dry: "client_DryRunUpdate env mergedSubObj = Inl errS" "IsForbidden errS"
             "client_DryRunUpdate env mergedOG = Inl errG" "IsForbidden errG"
  shows
   "(handleKeys env dS (heap s aS) (removeFieldsForComparison env (heap s aS))
       (ComplianceType (pol_Spec policy)) = ([], True, mergedSubObj) \<longrightarrow>
       fst (mergeObjects env dS aS (ComplianceType (pol_Spec policy)) s) = (True, True, None)) \<and>
    (watcher_Get env (opPolIdentifier (pol_Namespace policy) (pol_Name policy))
       subscriptionGVK (sub_Namespace sub) (sub_Name sub) = Inr (Some aS) \<and>
     aS < next_addr s \<and>
     ToUnstructured env (SubscriptionObj sub) = Inr dS \<and>
     handleKeys env dS (heap s aS) (removeFieldsForComparison env (heap s aS))
       (ComplianceType (pol_Spec policy)) = ([], True, mergedSubObj) \<and>
     FromUnstructured_Subscription env mergedSubObj = Inr mergedSub \<longrightarrow>
       fst (handleSubscription env policy (Some sub) s) =
         (Some mergedSub, [],
          updateStatus_changed env (status_log s) (mismatchCondUnfixable ''Subscription'')
            [mismatchedObj (UnstructuredObj (heap s aS))], None) \<and>
       status_log (snd (handleSubscription env policy (Some sub) s)) =
         status_log s @ [(mismatchCondUnfixable ''Subscription'',
                          [mismatchedObj (UnstructuredObj (heap s aS))])] \<and>
       requests (snd (handleSubscription env policy (Some sub) s)) =
         requests s @ [DryRunUpdate mergedSubObj]) \<and>
    (og_Namespace og \<noteq> [] \<and>
     watcher_List env (opPolIdentifier (pol_Namespace policy) (pol_Name policy))
       operatorGroupGVK (og_Namespace og) = Inr [aG] \<and>
     aG < next_addr s \<and>
     (GetName (heap s aG) = og_Name og \<or>
      (og_Name og = [] \<and> GetGenerateName (heap s aG) = og_GenerateName og)) \<and>
     ToUnstructured env (OperatorGroupObj og) = Inr dG \<and>
     handleKeys env dG (heap s aG) (removeFieldsForComparison env (heap s aG))
       (ComplianceType (pol_Spec policy)) = ([], True, mergedOG) \<longrightarrow>
       (let reported =
              (if OperatorGroup_Raw (pol_Spec policy) = None
               then (opGroupPreexistingCond, [matchedObj (UnstructuredObj (heap s aG))])
               else (mismatchCondUnfixable ''OperatorGroup'',
                     [mismatchedObj (UnstructuredObj (heap s aG))]))
        in fst (handleOpGroup env policy (Some og) s) =
             ([], updateStatus_changed env (status_log s) (fst reported) (snd reported), None) \<and>
           status_log (snd (handleOpGroup env policy (Some og) s)) =
             status_log s @ [reported] \<and>
           requests (snd (handleOpGroup env policy (Some og) s)) =
             requests s @ [DryRunUpdate mergedOG]))"
proof (intro conjI impI)
  assume "handleKeys env dS (heap s aS) (removeFieldsForComparison env (heap s aS))
            (ComplianceType (pol_Spec policy)) = ([], True, mergedSubObj)"
  then show "fst (mergeObjects env dS aS (ComplianceType (pol_Spec policy)) s) = (True, True, None)"
    using dry(1,2) by (rule mergeObjects_forbidden)
next
  assume h: "watcher_Get env (opPolIdentifier (pol_Namespace policy) (pol_Name policy))
       subscriptionGVK (sub_Namespace sub) (sub_Name sub) = Inr (Some aS) \<and>
     aS < next_addr s \<and>
     ToUnstructured env (SubscriptionObj sub) = Inr dS \<and>
     handleKeys env dS (heap s aS) (removeFieldsForComparison env (heap s aS))
       (ComplianceType (pol_Spec policy)) = ([], True, mergedSubObj) \<and>
     FromUnstructured_Subscription env mergedSubObj = Inr mergedSub"
  have r: "fst (handleSubscription env policy (Some sub) s) =
           (Some mergedSub, [],
            updateStatus_changed env (status_log s) (mismatchCondUnfixable ''Subscription'')
              [mismatchedObj (UnstructuredObj (heap s aS))], None) \<and>
         status_log (snd (handleSubscription env policy (Some sub) s)) =
           status_log s @ [(mismatchCondUnfixable ''Subscription'',
                            [mismatchedObj (UnstructuredObj (heap s aS))])] \<and>
         requests (snd (handleSubscription env policy (Some sub) s)) =
           requests s @ [DryRunUpdate mergedSubObj]"
    using handleSubscription_unfixable [OF enf _ _ _ _ dry(1,2)] h
    by blast
  from r show "fst (handleSubscription env policy (Some sub) s) =
           (Some mergedSub, [],
            updateStatus_changed env (status_log s) (mismatchCondUnfixable ''Subscription'')
              [mismatchedObj (UnstructuredObj (heap s aS))], None)" by simp
  from r show "status_log (snd (handleSubscription env policy (Some sub) s)) =
           status_log s @ [(mismatchCondUnfixable ''Subscription'',
                            [mismatchedObj (UnstructuredObj (heap s aS))])]" by simp
  from r show "requests (snd (handleSubscription env policy (Some sub) s)) =
           requests s @ [DryRunUpdate mergedSubObj]" by simp
next
  assume h: "og_Namespace og \<noteq> [] \<and>
     watcher_List env (opPolIdentifier (pol_Namespace policy) (pol_Name policy))
       operatorGroupGVK (og_Namespace og) = Inr [aG] \<and>
     aG < next_addr s \<and>
     (GetName (heap s aG) = og_Name og \<or>
      (og_Name og = [] \<and> GetGenerateName (heap s aG) = og_GenerateName og)) \<and>
     ToUnstructured env (OperatorGroupObj og) = Inr dG \<and>
     handleKeys env dG (heap s aG) (removeFieldsForComparison env (heap s aG))
       (ComplianceType (pol_Spec policy)) = ([], True, mergedOG)"
  show "let reported =
              (if OperatorGroup_Raw (pol_Spec policy) = None
               then (opGroupPreexistingCond, [matchedObj (UnstructuredObj (heap s aG))])
               else (mismatchCondUnfixable ''OperatorGroup'',
                     [mismatchedObj (UnstructuredObj (heap s aG))]))
        in fst (handleOpGroup env policy (Some og) s) =
             ([], updateStatus_changed env (status_log s) (fst reported) (snd reported), None) \<and>
           status_log (snd (handleOpGroup env policy (Some og) s)) =
             status_log s @ [reported] \<and>
           requests (snd (handleOpGroup env policy (Some og) s)) =
             requests s @ [DryRunUpdate mergedOG]"
  proof (cases "OperatorGroup_Raw (pol_Spec policy)")
    case None
    have "fst (handleOpGroup env policy (Some og) s) =
           ([], updateStatus_changed env (status_log s) opGroupPreexistingCond
              [matchedObj (UnstructuredObj (heap s aG))], None) \<and>
         status_log (snd (handleOpGroup env policy (Some og) s)) =
           status_log s @ [(opGroupPreexistingCond, [matchedObj (UnstructuredObj (heap s aG))])] \<and>
         requests (snd (handleOpGroup env policy (Some og) s)) =
           requests s @ [DryRunUpdate mergedOG]"
      using handleOpGroup_preexisting [OF None _ _ _ _ _ _ dry(3,4)] h
      by blast
    with None show ?thesis by simp
  next
    case (Some raw)
    have "fst (handleOpGroup env policy (Some og) s) =
           ([], updateStatus_changed env (status_log s) (mismatchCondUnfixable ''OperatorGroup'')
              [mismatchedObj (UnstructuredObj (heap s aG))], None) \<and>
         status_log (snd (handleOpGroup env policy (Some og) s)) =
           status_log s @ [(mismatchCondUnfixable ''OperatorGroup'',
                            [mismatchedObj (UnstructuredObj (heap s aG))])] \<and>
         requests (snd (handleOpGroup env policy (Some og) s)) =
           requests s @ [DryRunUpdate mergedOG]"
      using handleOpGroup_unfixable [OF enf Some _ _ _ _ _ _ dry(3,4)] h
      by blast
    with Some show ?thesis by simp
  qed
qed

text \<open>
  On the cluster that forbids every update, with the enforcing example policy: the merge
  engine answers \<open>(true, true, nil)\<close>, and both reconcilers report the unfixable
  mismatch after the dry run alone.
\<close>

theorem forbidden_dry_run_reported_unfixable_witness:
  "IsEnforce (RemediationAction (pol_Spec example_policy)) \<and>
   client_DryRunUpdate forbidden_env example_sub_content =
     Inl (ApiStatusError StatusReasonForbidden ''field is immutable'') \<and>
   client_DryRunUpdate forbidden_env example_og_content =
     Inl (ApiStatusError StatusReasonForbidden ''field is immutable'') \<and>
   IsForbidden (ApiStatusError StatusReasonForbidden ''field is immutable'') \<and>
   fst (mergeObjects forbidden_env Map.empty 2 ''musthave'' example_cluster) = (True, True, None) \<and>
   fst (handleSubscription forbidden_env example_policy (Some example_sub) example_cluster) =
     (Some example_sub, [], True, None) \<and>
   status_log (snd (handleSubscription forbidden_env example_policy (Some example_sub)
                      example_cluster)) =
     [(mismatchCondUnfixable ''Subscription'',
       [mismatchedObj (UnstructuredObj example_sub_content)])] \<and>
   requests (snd (handleSubscription forbidden_env example_policy (Some example_sub)
                    example_cluster)) = [DryRunUpdate example_sub_content] \<and>
   fst (handleOpGroup forbidden_env example_policy (Some example_og) example_cluster) =
     ([], True, None) \<and>
   status_log (snd (handleOpGroup forbidden_env example_policy (Some example_og)
                      example_cluster)) =
     [(mismatchCondUnfixable ''OperatorGroup'',
       [mismatchedObj (UnstructuredObj example_og_content)])] \<and>
   requests (snd (handleOpGroup forbidden_env example_policy (Some example_og)
                    example_cluster)) = [DryRunUpdate example_og_content]"
proof -
  let ?err = "ApiStatusError StatusReasonForbidden ''field is immutable''"
  have enf: "IsEnforce (RemediationAction (pol_Spec example_policy))"
    by (simp add: example_policy_def IsEnforce_def)
  have dryS: "client_DryRunUpdate forbidden_env example_sub_content = Inl ?err"
    and dryG: "client_DryRunUpdate forbidden_env example_og_content = Inl ?err"
    by (simp_all add: forbidden_env_def)
  have forb: "IsForbidden ?err" by simp
  have keysS: "handleKeys forbidden_env Map.empty (heap example_cluster 2)
                 (removeFieldsForComparison forbidden_env (heap example_cluster 2))
                 (ComplianceType (pol_Spec example_policy)) = ([], True, example_sub_content)"
    and keysG: "handleKeys forbidden_env Map.empty (heap example_cluster 0)
                 (removeFieldsForComparison forbidden_env (heap example_cluster 0))
                 (ComplianceType (pol_Spec example_policy)) = ([], True, example_og_content)"
    by (simp_all add: forbidden_env_def example_cluster_def example_cache_def)
  have getS: "watcher_Get forbidden_env
                (opPolIdentifier (pol_Namespace example_policy) (pol_Name example_policy))
                subscriptionGVK (sub_Namespace example_sub) (sub_Name example_sub) = Inr (Some 2)"
    and listG: "watcher_List forbidden_env
                (opPolIdentifier (pol_Namespace example_policy) (pol_Name example_policy))
                operatorGroupGVK (og_Namespace example_og) = Inr [0]"
    by (simp_all add: forbidden_env_def)
  have alloc: "2 < next_addr example_cluster" "0 < next_addr example_cluster"
    by (simp_all add: example_cluster_def)
  have conv: "ToUnstructured forbidden_env (SubscriptionObj example_sub) = Inr Map.empty"
    "ToUnstructured forbidden_env (OperatorGroupObj example_og) = Inr Map.empty"
    "FromUnstructured_Subscription forbidden_env example_sub_content = Inr example_sub"
    by (simp_all add: forbidden_env_def example_env_def)
  have og: "og_Namespace example_og \<noteq> []" "GetName (heap example_cluster 0) = og_Name example_og"
    "OperatorGroup_Raw (pol_Spec example_policy) \<noteq> None"
    by (simp_all add: example_og_def example_cluster_def example_cache_def example_og_content_def
        GetName_def getNestedString_def NestedString_def example_policy_def)
  have log: "status_log example_cluster = []" "requests example_cluster = []"
    "heap example_cluster 2 = example_sub_content" "heap example_cluster 0 = example_og_content"
    "ComplianceType (pol_Spec example_policy) = ''musthave''"
    "updateStatus_changed forbidden_env = (\<lambda>st c rel. True)"
    by (simp_all add: example_cluster_def example_cache_def example_policy_def forbidden_env_def
        example_env_def)
  from forbidden_dry_run_reported_unfixable [OF enf dryS forb dryG forb,
      of Map.empty example_cluster 2 example_sub example_sub example_og 0 Map.empty]
    keysS keysG getS listG alloc conv og
  show ?thesis
    using enf dryS dryG forb by (simp add: log)
qed

text \<open>
  C4 as stated fails for an operator group that the policy does not specify: with the
  enforcing policy without an operator-group fragment and the generated group alone in the
  namespace, the dry run is rejected as forbidden and the reconciler reports the
  pre-existing operator group, not the unfixable mismatch.
\<close>

theorem forbidden_dry_run_preexisting_counterexample:
  "IsEnforce (RemediationAction (pol_Spec nogroup_policy)) \<and>
   buildOperatorGroup forbidden_generated_env nogroup_policy ''operators'' = Inr default_og \<and>
   client_DryRunUpdate forbidden_generated_env generated_og_content =
     Inl (ApiStatusError StatusReasonForbidden ''field is immutable'') \<and>
   IsForbidden (ApiStatusError StatusReasonForbidden ''field is immutable'') \<and>
   fst (handleOpGroup forbidden_generated_env nogroup_policy (Some default_og) example_cluster) =
     ([], True, None) \<and>
   requests (snd (handleOpGroup forbidden_generated_env nogroup_policy (Some default_og)
                    example_cluster)) = [DryRunUpdate generated_og_content] \<and>
   status_log (snd (handleOpGroup forbidden_generated_env nogroup_policy (Some default_og)
                      example_cluster)) =
     [(opGroupPreexistingCond, [matchedObj (UnstructuredObj generated_og_content)])] \<and>
   opGroupPreexistingCond \<noteq> mismatchCondUnfixable ''OperatorGroup''"
  by (simp add: handleOpGroup_def handleOpGroup_one_def DeepCopy_def mergeObjects_def
      updateStatus_def Let_def buildOperatorGroup_def forbidden_generated_env_def
      forbidden_env_def example_env_def nogroup_policy_def example_policy_def default_og_def
      example_cluster_def example_cache_def GetGenerateName_def GetName_def getNestedString_def
      NestedString_def generated_og_content_def IsEnforce_def IsInform_def)

subsection \<open>Too many operator groups\<close>

text \<open>
  C7. Whenever the watcher lists two or more operator groups in the namespace of the
  desired group, the operator-group reconciler reports the too-many-operator-groups
  condition, which is NonCompliant, with one related object per group found, and returns
  no error; it sends no request to the cluster and changes no object, whatever the
  remediation action of the policy.
\<close>

theorem handleOpGroup_too_many:
  assumes ns: "og_Namespace og \<noteq> []"
    and list: "watcher_List env (opPolIdentifier (pol_Namespace policy) (pol_Name policy))
                 operatorGroupGVK (og_Namespace og) = Inr found"
    and many: "2 \<le> length found"
  shows "fst (handleOpGroup env policy (Some og) s) =
           ([], updateStatus_changed env (status_log s) opGroupTooManyCond
                  (opGroupTooManyObjs (map (heap s) found)), None) \<and>
         status_log (snd (handleOpGroup env policy (Some og) s)) =
           status_log s @ [(opGroupTooManyCond, opGroupTooManyObjs (map (heap s) found))] \<and>
         opGroupTooManyObjs (map (heap s) found) = map (\<lambda>a. opGroupTooManyObj (heap s a)) found \<and>
         Condition_Status opGroupTooManyCond = Some ConditionFalse \<and>
         requests (snd (handleOpGroup env policy (Some og) s)) = requests s \<and>
         heap (snd (handleOpGroup env policy (Some og) s)) = heap s"
proof -
  from many obtain a b rest where found: "found = a # b # rest"
    by (cases found; cases "tl found") auto
  show ?thesis
    using ns list
    by (simp add: found handleOpGroup_def updateStatus_def opGroupTooManyObjs_def Let_def)
qed

text \<open>
  With both operator groups of the example in the namespace, under the enforcing policy
  and under the same policy informing.
\<close>

theorem handleOpGroup_too_many_witness:
  "og_Namespace example_og \<noteq> [] \<and>
   watcher_List two_groups_env
     (opPolIdentifier (pol_Namespace example_policy) (pol_Name example_policy))
     operatorGroupGVK (og_Namespace example_og) = Inr [0, 1] \<and>
   2 \<le> length [0::nat, 1] \<and>
   status_log (snd (handleOpGroup two_groups_env example_policy (Some example_og) example_cluster))
     = [(opGroupTooManyCond,
         [opGroupTooManyObj example_og_content, opGroupTooManyObj generated_og_content])] \<and>
   requests (snd (handleOpGroup two_groups_env example_policy (Some example_og) example_cluster))
     = [] \<and>
   status_log (snd (handleOpGroup two_groups_env
       (example_policy\<lparr>pol_Spec := (pol_Spec example_policy)\<lparr>RemediationAction := Inform\<rparr>\<rparr>)
       (Some example_og) example_cluster))
     = [(opGroupTooManyCond,
         [opGroupTooManyObj example_og_content, opGroupTooManyObj generated_og_content])]"
proof -
  let ?inf = "example_policy\<lparr>pol_Spec := (pol_Spec example_policy)\<lparr>RemediationAction := Inform\<rparr>\<rparr>"
  have ns: "og_Namespace example_og \<noteq> []" by (simp add: example_og_def)
  have list: "watcher_List two_groups_env
     (opPolIdentifier (pol_Namespace example_policy) (pol_Name example_policy))
     operatorGroupGVK (og_Namespace example_og) = Inr [0, 1]"
    and list2: "watcher_List two_groups_env
     (opPolIdentifier (pol_Namespace ?inf) (pol_Name ?inf))
     operatorGroupGVK (og_Namespace example_og) = Inr [0, 1]"
    by (simp_all add: two_groups_env_def)
  have many: "2 \<le> length [0::nat, 1]" by simp
  have st: "status_log example_cluster = []" "requests example_cluster = []"
    "heap example_cluster 0 = example_og_content"
    "heap example_cluster (Suc 0) = generated_og_content"
    by (simp_all add: example_cluster_def example_cache_def)
  from handleOpGroup_too_many [OF ns list many, of example_cluster]
    handleOpGroup_too_many [OF ns list2 many, of example_cluster] ns list many
  show ?thesis by (simp add: st opGroupTooManyObjs_def)
qed

subsection \<open>The correlation check fails\<close>

text \<open>
  C10. When the subscription is found and matches the policy, its resolution-failure
  condition is True, and the correlation check on the message of that condition returns an
  error, the subscription reconciler takes the message to apply: it reports the condition
  of the subscription type with status False and the reason and message of the failure,
  with the subscription as a non-compliant related object, and returns no error.
\<close>

theorem handleSubscription_correlation_error:
  assumes get: "watcher_Get env (opPolIdentifier (pol_Namespace policy) (pol_Name policy))
                  subscriptionGVK (sub_Namespace sub) (sub_Name sub) = Inr (Some a)"
    and alloc: "a < next_addr s"
    and conv: "ToUnstructured env (SubscriptionObj sub) = Inr d"
    and keys: "handleKeys env d (heap s a) (removeFieldsForComparison env (heap s a))
                 (ComplianceType (pol_Spec policy)) = ([], False, merged)"
    and typed: "FromUnstructured_Subscription env merged = Inr mergedSub"
    and failed: "GetCondition (Conditions (sub_Status mergedSub)) SubscriptionResolutionFailed
                   = subResFailed"
                "sc_Status subResFailed = ConditionTrue"
    and err: "messageIncludesSubscription env mergedSub (sc_Message subResFailed) = Inl e"
  shows "fst (handleSubscription env policy (Some sub) s) =
           (Some mergedSub, [],
            updateStatus_changed env (status_log s)
              (RawCondition subConditionType ConditionFalse (sc_Reason subResFailed)
                 (sc_Message subResFailed) (sc_LastTransitionTime subResFailed))
              [nonCompObj (UnstructuredObj (heap s a)) (sc_Reason subResFailed)], None) \<and>
         status_log (snd (handleSubscription env policy (Some sub) s)) =
           status_log s @
           [(RawCondition subConditionType ConditionFalse (sc_Reason subResFailed)
               (sc_Message subResFailed) (sc_LastTransitionTime subResFailed),
             [nonCompObj (UnstructuredObj (heap s a)) (sc_Reason subResFailed)])] \<and>
         Condition_Status
           (RawCondition subConditionType ConditionFalse (sc_Reason subResFailed)
              (sc_Message subResFailed) (sc_LastTransitionTime subResFailed))
           = Some ConditionFalse \<and>
         requests (snd (handleSubscription env policy (Some sub) s)) = requests s"
  using assms
  by (simp add: handleSubscription_def handleSubscription_found_def DeepCopy_def
      mergeObjects_def updateStatus_def Let_def)

text \<open>
  On the cluster whose regular-expression library fails, the subscription for
  gatekeeper-operator-product is reported as failing with the message about
  gatekeeper-operator.
\<close>

theorem handleSubscription_correlation_error_witness:
  "messageIncludesSubscription failing_regexp_env unresolved_sub (sc_Message resolution_failure)
     = Inl (ErrorNew ''error parsing regexp'') \<and>
   sc_Status resolution_failure = ConditionTrue \<and>
   fst (handleSubscription failing_regexp_env example_policy (Some example_sub) example_cluster)
     = (Some unresolved_sub, [], True, None) \<and>
   status_log (snd (handleSubscription failing_regexp_env example_policy (Some example_sub)
                      example_cluster)) =
     [(RawCondition ''SubscriptionCompliant'' ConditionFalse ''ConstraintsNotSatisfiable''
         (sc_Message resolution_failure) (Some 1700000000),
       [nonCompObj (UnstructuredObj example_sub_content) ''ConstraintsNotSatisfiable''])]"
proof -
  have get: "watcher_Get failing_regexp_env
               (opPolIdentifier (pol_Namespace example_policy) (pol_Name example_policy))
               subscriptionGVK (sub_Namespace example_sub) (sub_Name example_sub) = Inr (Some 2)"
    by (simp add: failing_regexp_env_def unresolved_env_def)
  have alloc: "2 < next_addr example_cluster" by (simp add: example_cluster_def)
  have conv: "ToUnstructured failing_regexp_env (SubscriptionObj example_sub) = Inr Map.empty"
    by (simp add: failing_regexp_env_def unresolved_env_def example_env_def)
  have keys: "handleKeys failing_regexp_env Map.empty (heap example_cluster 2)
                (removeFieldsForComparison failing_regexp_env (heap example_cluster 2))
                (ComplianceType (pol_Spec example_policy)) = ([], False, example_sub_content)"
    by (simp add: failing_regexp_env_def unresolved_env_def example_env_def example_cluster_def
        example_cache_def)
  have typed: "FromUnstructured_Subscription failing_regexp_env example_sub_content
                 = Inr unresolved_sub"
    by (simp add: failing_regexp_env_def unresolved_env_def)
  have failed: "GetCondition (Conditions (sub_Status unresolved_sub)) SubscriptionResolutionFailed
                  = resolution_failure"
    "sc_Status resolution_failure = ConditionTrue"
    by (simp_all add: unresolved_sub_def resolution_failure_def SubscriptionResolutionFailed_def)
  have err: "messageIncludesSubscription failing_regexp_env unresolved_sub
               (sc_Message resolution_failure) = Inl (ErrorNew ''error parsing regexp'')"
    by (simp add: messageIncludesSubscription_def failing_regexp_env_def)
  have st: "status_log example_cluster = []" "heap example_cluster 2 = example_sub_content"
    "updateStatus_changed failing_regexp_env = (\<lambda>st c rel. True)"
    "sc_Reason resolution_failure = ''ConstraintsNotSatisfiable''"
    "sc_LastTransitionTime resolution_failure = Some 1700000000"
    by (simp_all add: example_cluster_def example_cache_def failing_regexp_env_def
        unresolved_env_def example_env_def resolution_failure_def)
  from handleSubscription_correlation_error [OF get alloc conv keys typed failed err] err failed
  show ?thesis by (simp add: st subConditionType_def)
qed

subsection \<open>A desired object that failed to build\<close>

text \<open>
  C8, as the code has it. When the desired operator group is nil (or has no namespace), the
  desired subscription is nil, or the subscription handed to the install-plan and
  catalog-source reconcilers is nil, the reconciler of that dimension only records the
  invalid-policy condition of its kind, whose verdict is Unknown, with no related object:
  it returns no error, sends no request and changes no object. The installed-version
  reconciler, given a nil subscription, records the no-installed-version condition with
  its placeholder related object instead, and the deployment reconciler, given no
  installed version, the no-deployments condition, also without a request.
\<close>

theorem nil_desired_object_reported:
  "handleOpGroup env policy None s =
     (([], updateStatus_changed env (status_log s) (invalidCausingUnknownCond ''OperatorGroup'') [],
       None),
      s\<lparr>status_log := status_log s @ [(invalidCausingUnknownCond ''OperatorGroup'', [])]\<rparr>) \<and>
   handleOpGroup env policy (Some (og\<lparr>og_Namespace := []\<rparr>)) s =
     (([], updateStatus_changed env (status_log s) (invalidCausingUnknownCond ''OperatorGroup'') [],
       None),
      s\<lparr>status_log := status_log s @ [(invalidCausingUnknownCond ''OperatorGroup'', [])]\<rparr>) \<and>
   handleSubscription env policy None s =
     ((None, [],
       updateStatus_changed env (status_log s) (invalidCausingUnknownCond ''Subscription'') [],
       None),
      s\<lparr>status_log := status_log s @ [(invalidCausingUnknownCond ''Subscription'', [])]\<rparr>) \<and>
   handleInstallPlan env policy None s =
     ((updateStatus_changed env (status_log s) (invalidCausingUnknownCond ''InstallPlan'') [],
       None),
      s\<lparr>status_log := status_log s @ [(invalidCausingUnknownCond ''InstallPlan'', [])]\<rparr>) \<and>
   handleCatalogSource env policy None s =
     ((updateStatus_changed env (status_log s) (invalidCausingUnknownCond ''CatalogSource'') [],
       None),
      s\<lparr>status_log := status_log s @ [(invalidCausingUnknownCond ''CatalogSource'', [])]\<rparr>) \<and>
   handleCSV env policy None s =
     ((None, updateStatus_changed env (status_log s) noCSVCond [noExistingCSVObj], None),
      s\<lparr>status_log := status_log s @ [(noCSVCond, [noExistingCSVObj])]\<rparr>) \<and>
   handleDeployment env policy None s =
     ((updateStatus_changed env (status_log s) noDeploymentsCond [noExistingDeploymentObj],
       None),
      s\<lparr>status_log := status_log s @ [(noDeploymentsCond, [noExistingDeploymentObj])]\<rparr>) \<and>
   Condition_Status (invalidCausingUnknownCond ''OperatorGroup'') = Some ConditionUnknown \<and>
   Condition_Status (invalidCausingUnknownCond ''Subscription'') = Some ConditionUnknown \<and>
   Condition_Status (invalidCausingUnknownCond ''InstallPlan'') = Some ConditionUnknown \<and>
   Condition_Status (invalidCausingUnknownCond ''CatalogSource'') = Some ConditionUnknown"
  by (simp add: handleOpGroup_def handleSubscription_def handleInstallPlan_def
      handleCatalogSource_def handleCSV_def handleDeployment_def updateStatus_def)

text \<open>
  C8 as stated fails for the installed-version dimension: with a nil subscription the
  reconciler records the no-installed-version condition, which is not the invalid-policy
  condition of its kind, and is what it records for the valid example subscription whose
  status names no installed version yet.
\<close>

theorem handleCSV_nil_subscription_counterexample:
  "handleCSV example_env example_policy None example_cluster =
     ((None, True, None), example_cluster\<lparr>status_log := [(noCSVCond, [noExistingCSVObj])]\<rparr>) \<and>
   noCSVCond \<noteq> invalidCausingUnknownCond ''ClusterServiceVersion'' \<and>
   InstalledCSV (sub_Status example_sub) = [] \<and>
   handleCSV example_env example_policy (Some example_sub) example_cluster =
     handleCSV example_env example_policy None example_cluster"
  by (simp add: handleCSV_def updateStatus_def example_env_def example_cluster_def
      example_sub_def)

subsection \<open>The objects of the watch cache\<close>

lemma handleSubscription_found_frame:
  assumes "b < next_addr s"
  shows "heap (snd (handleSubscription_found env policy sub a s)) b = heap s b"
  using assms
  by (auto simp add: handleSubscription_found_def DeepCopy_def mergeObjects_def r_Update_def
      updateStatus_def Let_def split: sum.splits option.splits prod.splits if_splits)

lemma handleSubscription_frame:
  assumes "b < next_addr s"
  shows "heap (snd (handleSubscription env policy desired s)) b = heap s b"
  using assms handleSubscription_found_frame [OF assms]
  by (auto simp add: handleSubscription_def handleSubscription_missing_def
      r_Create_Subscription_def updateStatus_def Let_def
      split: sum.splits option.splits prod.splits if_splits)

lemma handleOpGroup_one_frame:
  assumes "b < next_addr s"
  shows "heap (snd (handleOpGroup_one env policy og a s)) b = heap s b"
  using assms
  by (auto simp add: handleOpGroup_one_def DeepCopy_def mergeObjects_def r_Update_def
      updateStatus_def Let_def split: sum.splits option.splits prod.splits if_splits)

lemma handleOpGroup_frame:
  assumes "b < next_addr s"
  shows "heap (snd (handleOpGroup env policy desired s)) b = heap s b"
  using assms handleOpGroup_one_frame [OF assms]
  by (auto simp add: handleOpGroup_def handleOpGroup_missing_def
      r_Create_OperatorGroup_def updateStatus_def Let_def
      split: sum.splits option.splits prod.splits if_splits list.splits)

text \<open>
  C9. The operator-group and subscription reconcilers hand a copy of the object found in
  the watch cache to the merge engine and to the update: every object that exists when
  the reconciler starts, so every object of the cache, has the same content when it
  returns, for every policy, desired object and behaviour of the cluster.
\<close>

theorem cached_objects_not_mutated:
  assumes "b < next_addr s"
  shows "heap (snd (handleOpGroup env policy desiredOpGroup s)) b = heap s b \<and>
         heap (snd (handleSubscription env policy desiredSub s)) b = heap s b"
  using handleOpGroup_frame [OF assms] handleSubscription_frame [OF assms] by simp

text \<open>
  On the cluster where the update is applied, the update that is sent carries the merged
  field, and the cached subscription and operator group are as before.
\<close>

theorem cached_objects_not_mutated_witness:
  "2 < next_addr example_cluster \<and> 0 < next_addr example_cluster \<and>
   requests (snd (handleSubscription updating_env example_policy (Some example_sub)
                    example_cluster)) =
     [DryRunUpdate (example_sub_content(''spec'' \<mapsto> JStr ''desired'')),
      Update (example_sub_content(''spec'' \<mapsto> JStr ''desired''))] \<and>
   heap (snd (handleSubscription updating_env example_policy (Some example_sub) example_cluster)) 2
     = example_sub_content \<and>
   requests (snd (handleOpGroup updating_env example_policy (Some example_og)
                    example_cluster)) =
     [DryRunUpdate (example_og_content(''spec'' \<mapsto> JStr ''desired'')),
      Update (example_og_content(''spec'' \<mapsto> JStr ''desired''))] \<and>
   heap (snd (handleOpGroup updating_env example_policy (Some example_og) example_cluster)) 0
     = example_og_content"
proof -
  have alloc: "2 < next_addr example_cluster" "0 < next_addr example_cluster"
    by (simp_all add: example_cluster_def)
  have before: "heap example_cluster 2 = example_sub_content"
    "heap example_cluster 0 = example_og_content"
    by (simp_all add: example_cluster_def example_cache_def)
  have differ: "example_sub_content(''spec'' \<mapsto> JStr ''desired'') \<noteq> example_sub_content"
    "example_og_content(''spec'' \<mapsto> JStr ''desired'') \<noteq> example_og_content"
    by (simp_all add: fun_upd_idem_iff example_sub_content_def example_og_content_def)
  have st: "heap example_cluster 2 = example_sub_content"
    "heap example_cluster 0 = example_og_content"
    "next_addr example_cluster = 3" "requests example_cluster = []"
    "status_log example_cluster = []"
    by (simp_all add: example_cluster_def example_cache_def)
  have name: "GetName example_og_content = og_Name example_og"
    "og_Namespace example_og \<noteq> []"
    by (simp_all add: example_og_def GetName_def getNestedString_def NestedString_def
        example_og_content_def)
  have reqS: "requests (snd (handleSubscription updating_env example_policy (Some example_sub)
                    example_cluster)) =
     [DryRunUpdate (example_sub_content(''spec'' \<mapsto> JStr ''desired'')),
      Update (example_sub_content(''spec'' \<mapsto> JStr ''desired''))]"
    by (simp add: handleSubscription_def handleSubscription_found_def DeepCopy_def
        mergeObjects_def r_Update_def updateStatus_def Let_def updating_env_def example_env_def
        example_policy_def st differ IsEnforce_def IsInform_def)
  have reqG: "requests (snd (handleOpGroup updating_env example_policy (Some example_og)
                    example_cluster)) =
     [DryRunUpdate (example_og_content(''spec'' \<mapsto> JStr ''desired'')),
      Update (example_og_content(''spec'' \<mapsto> JStr ''desired''))]"
    by (simp add: handleOpGroup_def handleOpGroup_one_def DeepCopy_def
        mergeObjects_def r_Update_def updateStatus_def Let_def updating_env_def example_env_def
        example_policy_def st differ name IsEnforce_def IsInform_def)
  from cached_objects_not_mutated [OF alloc(1), of updating_env example_policy
      "Some example_og" "Some example_sub"]
    cached_objects_not_mutated [OF alloc(2), of updating_env example_policy
      "Some example_og" "Some example_sub"]
  show ?thesis using alloc reqS reqG by (simp add: before)
qed

subsection \<open>The correlation check\<close>

lemma in_rest_Lit: "x \<in> set (regex_rest (Lit l) s) \<longleftrightarrow> s = l @ x"
proof
  assume "x \<in> set (regex_rest (Lit l) s)"
  then have "take (length l) s = l" and "x = drop (length l) s"
    by (auto split: if_splits)
  then show "s = l @ x"
    by (metis append_take_drop_id)
next
  assume "s = l @ x"
  then show "x \<in> set (regex_rest (Lit l) s)" by simp
qed

lemma in_rest_boundary:
  "(\<exists>x. x \<in> set (regex_rest (Alt EndOfText (Alt Whitespace (Alt (Lit '','') (Lit '':'')))) rest))
     \<longleftrightarrow> boundary rest"
proof (cases rest)
  case Nil
  then show ?thesis by (simp add: boundary_def)
next
  case (Cons c cs)
  have "(\<exists>x. x \<in> set (regex_rest (Lit '','') (c # cs))) \<longleftrightarrow> c = CHR '',''"
    and "(\<exists>x. x \<in> set (regex_rest (Lit '':'') (c # cs))) \<longleftrightarrow> c = CHR '':''"
    unfolding in_rest_Lit by auto
  then show ?thesis
    using Cons by (auto simp: boundary_def simp del: regex_rest.simps(1))
qed

lemma regex_rest_nonempty: "regex_rest r s \<noteq> [] \<longleftrightarrow> (\<exists>x. x \<in> set (regex_rest r s))"
  by (cases "regex_rest r s") auto

lemma regex_rest_subscription:
  "regex_rest (subscription_regex subscription) t \<noteq> [] \<longleftrightarrow>
     (\<exists>target rest.
        t = target @ rest \<and> boundary rest \<and>
        (target = ''subscription '' @ sub_Name subscription \<or>
         target = ''subscription '' @ sub_Namespace subscription @ ''/'' @ sub_Name subscription \<or>
         target = ''package '' @ Package (sub_Spec subscription) \<or>
         target = ''package '' @ sub_Namespace subscription @ ''/'' @
                    Package (sub_Spec subscription)))"
  (is "?lhs \<longleftrightarrow> ?rhs")
proof -
  let ?B = "Alt EndOfText (Alt Whitespace (Alt (Lit '','') (Lit '':'')))"
  let ?A = "Alt (Seq (Lit ''subscription '')
                   (Alt (Lit (sub_Name subscription))
                        (Lit (sub_Namespace subscription @ ''/'' @ sub_Name subscription))))
                (Seq (Lit ''package '')
                   (Alt (Lit (Package (sub_Spec subscription)))
                        (Lit (sub_Namespace subscription @ ''/'' @
                              Package (sub_Spec subscription)))))"
  have shape: "subscription_regex subscription = Seq ?A ?B"
    by (simp add: subscription_regex_def Let_def)
  have A: "y \<in> set (regex_rest ?A t) \<longleftrightarrow>
             (t = (''subscription '' @ sub_Name subscription) @ y \<or>
              t = (''subscription '' @ sub_Namespace subscription @ ''/'' @ sub_Name subscription) @ y \<or>
              t = (''package '' @ Package (sub_Spec subscription)) @ y \<or>
              t = (''package '' @ sub_Namespace subscription @ ''/'' @
                     Package (sub_Spec subscription)) @ y)" for y
  proof -
    have seq: "y \<in> set (regex_rest (Seq (Lit k) (Alt (Lit n1) (Lit n2))) t) \<longleftrightarrow>
                 (t = (k @ n1) @ y \<or> t = (k @ n2) @ y)" for k n1 n2
    proof -
      have "y \<in> set (regex_rest (Seq (Lit k) (Alt (Lit n1) (Lit n2))) t) \<longleftrightarrow>
              (\<exists>z \<in> set (regex_rest (Lit k) t).
                 y \<in> set (regex_rest (Lit n1) z) \<or> y \<in> set (regex_rest (Lit n2) z))"
        by (simp del: regex_rest.simps(1))
      also have "\<dots> \<longleftrightarrow> (\<exists>z. t = k @ z \<and> (z = n1 @ y \<or> z = n2 @ y))"
        unfolding Bex_def in_rest_Lit by blast
      also have "\<dots> \<longleftrightarrow> (t = (k @ n1) @ y \<or> t = (k @ n2) @ y)"
        by auto
      finally show ?thesis .
    qed
    have "y \<in> set (regex_rest ?A t) \<longleftrightarrow>
            (y \<in> set (regex_rest (Seq (Lit ''subscription '')
                   (Alt (Lit (sub_Name subscription))
                        (Lit (sub_Namespace subscription @ ''/'' @ sub_Name subscription)))) t) \<or>
             y \<in> set (regex_rest (Seq (Lit ''package '')
                   (Alt (Lit (Package (sub_Spec subscription)))
                        (Lit (sub_Namespace subscription @ ''/'' @
                              Package (sub_Spec subscription))))) t))"
      by (simp del: regex_rest.simps(1,3))
    then show ?thesis
      unfolding seq by simp
  qed
  have "?lhs \<longleftrightarrow> (\<exists>y \<in> set (regex_rest ?A t). \<exists>x. x \<in> set (regex_rest ?B y))"
    unfolding shape regex_rest_nonempty by (auto simp del: regex_rest.simps(1,2))
  also have "\<dots> \<longleftrightarrow> (\<exists>y. y \<in> set (regex_rest ?A t) \<and> boundary y)"
    unfolding in_rest_boundary by blast
  also have "\<dots> \<longleftrightarrow> ?rhs"
  proof
    assume "\<exists>y. y \<in> set (regex_rest ?A t) \<and> boundary y"
    then obtain y where y: "y \<in> set (regex_rest ?A t)" "boundary y" by blast
    from y(1) obtain target where "t = target @ y"
      "target = ''subscription '' @ sub_Name subscription \<or>
       target = ''subscription '' @ sub_Namespace subscription @ ''/'' @ sub_Name subscription \<or>
       target = ''package '' @ Package (sub_Spec subscription) \<or>
       target = ''package '' @ sub_Namespace subscription @ ''/'' @
                  Package (sub_Spec subscription)"
      unfolding A by fastforce
    with y(2) show ?rhs by blast
  next
    assume ?rhs
    then obtain target rest where r: "t = target @ rest" "boundary rest"
      "target = ''subscription '' @ sub_Name subscription \<or>
       target = ''subscription '' @ sub_Namespace subscription @ ''/'' @ sub_Name subscription \<or>
       target = ''package '' @ Package (sub_Spec subscription) \<or>
       target = ''package '' @ sub_Namespace subscription @ ''/'' @
                  Package (sub_Spec subscription)"
      by blast
    from r(1,3) have "rest \<in> set (regex_rest ?A t)"
      unfolding A by fastforce
    with r(2) show "\<exists>y. y \<in> set (regex_rest ?A t) \<and> boundary y" by blast
  qed
  finally show ?thesis .
qed

lemma regex_search_iff:
  "regex_search r s \<longleftrightarrow> (\<exists>pre t. s = pre @ t \<and> regex_rest r t \<noteq> [])"
proof (induction s)
  case Nil
  then show ?case by simp
next
  case (Cons c cs)
  have "(\<exists>pre t. c # cs = pre @ t \<and> regex_rest r t \<noteq> []) \<longleftrightarrow>
          (regex_rest r (c # cs) \<noteq> [] \<or> (\<exists>pre t. cs = pre @ t \<and> regex_rest r t \<noteq> []))"
    by (auto simp: Cons_eq_append_conv)
  with Cons show ?case by simp
qed

lemma regex_search_mentions:
  "regex_search (subscription_regex subscription) message = mentions subscription message"
proof -
  let ?T = "\<lambda>target.
              target = ''subscription '' @ sub_Name subscription \<or>
              target = ''subscription '' @ sub_Namespace subscription @ ''/'' @
                         sub_Name subscription \<or>
              target = ''package '' @ Package (sub_Spec subscription) \<or>
              target = ''package '' @ sub_Namespace subscription @ ''/'' @
                         Package (sub_Spec subscription)"
  have "regex_search (subscription_regex subscription) message \<longleftrightarrow>
          (\<exists>pre t. message = pre @ t \<and>
             (\<exists>target rest. t = target @ rest \<and> boundary rest \<and> ?T target))"
    unfolding regex_search_iff regex_rest_subscription ..
  also have "\<dots> \<longleftrightarrow>
          (\<exists>pre target rest. message = pre @ target @ rest \<and> boundary rest \<and> ?T target)"
  proof
    assume "\<exists>pre t. message = pre @ t \<and>
             (\<exists>target rest. t = target @ rest \<and> boundary rest \<and> ?T target)"
    then obtain pre t target rest
      where "message = pre @ t" "t = target @ rest" "boundary rest" "?T target"
      by blast
    then have "message = pre @ target @ rest \<and> boundary rest \<and> ?T target"
      by simp
    then show "\<exists>pre target rest. message = pre @ target @ rest \<and> boundary rest \<and> ?T target"
      by (intro exI)
  next
    assume "\<exists>pre target rest. message = pre @ target @ rest \<and> boundary rest \<and> ?T target"
    then obtain pre target rest
      where "message = pre @ target @ rest" "boundary rest" "?T target"
      by blast
    then have "message = pre @ (target @ rest) \<and>
               (\<exists>target' rest'. target @ rest = target' @ rest' \<and> boundary rest' \<and> ?T target')"
      by blast
    then show "\<exists>pre t. message = pre @ t \<and>
             (\<exists>target rest. t = target @ rest \<and> boundary rest \<and> ?T target)"
      by (intro exI)
  qed
  also have "\<dots> \<longleftrightarrow> mentions subscription message"
    unfolding mentions_def ..
  finally show ?thesis by simp
qed

lemma handleSubscription_matches:
  assumes get: "watcher_Get env (opPolIdentifier (pol_Namespace policy) (pol_Name policy))
                  subscriptionGVK (sub_Namespace sub) (sub_Name sub) = Inr (Some a)"
    and alloc: "a < next_addr s"
    and conv: "ToUnstructured env (SubscriptionObj sub) = Inr d"
    and keys: "handleKeys env d (heap s a) (removeFieldsForComparison env (heap s a))
                 (ComplianceType (pol_Spec policy)) = ([], False, merged)"
    and typed: "FromUnstructured_Subscription env merged = Inr mergedSub"
    and other: "messageIncludesSubscription env mergedSub
                  (sc_Message (GetCondition (Conditions (sub_Status mergedSub))
                     SubscriptionResolutionFailed)) = Inr False"
  shows "fst (handleSubscription env policy (Some sub) s) =
           (Some mergedSub, [],
            updateStatus_changed env (status_log s) (matchesCond ''Subscription'')
              [matchedObj (UnstructuredObj (heap s a))], None) \<and>
         status_log (snd (handleSubscription env policy (Some sub) s)) =
           status_log s @ [(matchesCond ''Subscription'',
                            [matchedObj (UnstructuredObj (heap s a))])]"
  using assms
  by (simp add: handleSubscription_def handleSubscription_found_def DeepCopy_def
      mergeObjects_def updateStatus_def Let_def)

lemma unresolved_sub_regex:
  "subscription_regex unresolved_sub =
     Seq (Alt (Seq (Lit ''subscription '')
                 (Alt (Lit ''gatekeeper-operator-product'')
                      (Lit ''operators/gatekeeper-operator-product'')))
              (Seq (Lit ''package '')
                 (Alt (Lit ''gatekeeper-operator-product'')
                      (Lit ''operators/gatekeeper-operator-product''))))
         (Alt EndOfText (Alt Whitespace (Alt (Lit '','') (Lit '':''))))"
  by (simp add: subscription_regex_def unresolved_sub_def example_sub_def example_spec_def
      Let_def)

lemma gatekeeper_sub_regex:
  "subscription_regex gatekeeper_sub =
     Seq (Alt (Seq (Lit ''subscription '')
                 (Alt (Lit ''gatekeeper-operator'') (Lit ''operators/gatekeeper-operator'')))
              (Seq (Lit ''package '')
                 (Alt (Lit ''gatekeeper-operator'') (Lit ''operators/gatekeeper-operator''))))
         (Alt EndOfText (Alt Whitespace (Alt (Lit '','') (Lit '':''))))"
  by (simp add: subscription_regex_def gatekeeper_sub_def example_sub_def example_spec_def
      Let_def)

lemma gatekeeper_searches:
  "regex_search (subscription_regex unresolved_sub) operator_message = False"
  "regex_search (subscription_regex gatekeeper_sub) product_message = False"
  "regex_search (subscription_regex gatekeeper_sub) operator_message = True"
  "regex_search (subscription_regex unresolved_sub) product_message = True"
  unfolding unresolved_sub_regex gatekeeper_sub_regex operator_message_def product_message_def
  by (simp_all add: is_space_def)

text \<open>
  C6. For every subscription and message, the correlation check answers whether the
  message mentions the subscription: the word subscription or package, then the name (with
  or without the namespace), then the end of the text, white space, a comma or a colon.
  So the failure that names the package gatekeeper-operator is not taken for the
  subscription of gatekeeper-operator-product, nor the other way round, while each is
  taken for its own. And when the message of the resolution failure does not mention the
  subscription found, which matches the policy, the reconciler reports that the
  subscription matches.
\<close>

theorem correlation_at_word_boundaries:
  "(regexp_MatchString env = MatchString \<longrightarrow>
      messageIncludesSubscription env subscription message =
        Inr (mentions subscription message)) \<and>
   Package (sub_Spec unresolved_sub) = ''gatekeeper-operator-product'' \<and>
   Package (sub_Spec gatekeeper_sub) = ''gatekeeper-operator'' \<and>
   messageIncludesSubscription example_env unresolved_sub operator_message = Inr False \<and>
   messageIncludesSubscription example_env gatekeeper_sub product_message = Inr False \<and>
   messageIncludesSubscription example_env gatekeeper_sub operator_message = Inr True \<and>
   messageIncludesSubscription example_env unresolved_sub product_message = Inr True \<and>
   (regexp_MatchString env = MatchString \<and>
    watcher_Get env (opPolIdentifier (pol_Namespace policy) (pol_Name policy))
      subscriptionGVK (sub_Namespace sub) (sub_Name sub) = Inr (Some a) \<and>
    a < next_addr s \<and>
    ToUnstructured env (SubscriptionObj sub) = Inr d \<and>
    handleKeys env d (heap s a) (removeFieldsForComparison env (heap s a))
      (ComplianceType (pol_Spec policy)) = ([], False, merged) \<and>
    FromUnstructured_Subscription env merged = Inr mergedSub \<and>
    \<not> mentions mergedSub
        (sc_Message (GetCondition (Conditions (sub_Status mergedSub))
           SubscriptionResolutionFailed)) \<longrightarrow>
      fst (handleSubscription env policy (Some sub) s) =
        (Some mergedSub, [],
         updateStatus_changed env (status_log s) (matchesCond ''Subscription'')
           [matchedObj (UnstructuredObj (heap s a))], None) \<and>
      status_log (snd (handleSubscription env policy (Some sub) s)) =
        status_log s @ [(matchesCond ''Subscription'',
                         [matchedObj (UnstructuredObj (heap s a))])])"
proof -
  have lib: "regexp_MatchString env = MatchString \<Longrightarrow>
               messageIncludesSubscription env sb msg = Inr (mentions sb msg)" for sb msg
    by (simp add: messageIncludesSubscription_def MatchString_def regex_search_mentions)
  have ex: "messageIncludesSubscription example_env sb msg
              = Inr (regex_search (subscription_regex sb) msg)" for sb msg
    by (simp add: messageIncludesSubscription_def MatchString_def example_env_def)
  have handler: "fst (handleSubscription env policy (Some sub) s) =
        (Some mergedSub, [],
         updateStatus_changed env (status_log s) (matchesCond ''Subscription'')
           [matchedObj (UnstructuredObj (heap s a))], None) \<and>
      status_log (snd (handleSubscription env policy (Some sub) s)) =
        status_log s @ [(matchesCond ''Subscription'',
                         [matchedObj (UnstructuredObj (heap s a))])]"
    if h: "regexp_MatchString env = MatchString \<and>
    watcher_Get env (opPolIdentifier (pol_Namespace policy) (pol_Name policy))
      subscriptionGVK (sub_Namespace sub) (sub_Name sub) = Inr (Some a) \<and>
    a < next_addr s \<and>
    ToUnstructured env (SubscriptionObj sub) = Inr d \<and>
    handleKeys env d (heap s a) (removeFieldsForComparison env (heap s a))
      (ComplianceType (pol_Spec policy)) = ([], False, merged) \<and>
    FromUnstructured_Subscription env merged = Inr mergedSub \<and>
    \<not> mentions mergedSub
        (sc_Message (GetCondition (Conditions (sub_Status mergedSub))
           SubscriptionResolutionFailed))"
  proof -
    from h have "messageIncludesSubscription env mergedSub
                  (sc_Message (GetCondition (Conditions (sub_Status mergedSub))
                     SubscriptionResolutionFailed)) = Inr False"
      using lib by simp
    with h show ?thesis
      using handleSubscription_matches by blast
  qed
  have pkgs: "Package (sub_Spec unresolved_sub) = ''gatekeeper-operator-product''"
    "Package (sub_Spec gatekeeper_sub) = ''gatekeeper-operator''"
    by (simp_all add: unresolved_sub_def gatekeeper_sub_def example_sub_def example_spec_def)
  have runs: "messageIncludesSubscription example_env unresolved_sub operator_message = Inr False"
    "messageIncludesSubscription example_env gatekeeper_sub product_message = Inr False"
    "messageIncludesSubscription example_env gatekeeper_sub operator_message = Inr True"
    "messageIncludesSubscription example_env unresolved_sub product_message = Inr True"
    unfolding ex gatekeeper_searches by simp_all
  have first: "regexp_MatchString env = MatchString \<longrightarrow>
      messageIncludesSubscription env subscription message =
        Inr (mentions subscription message)"
    using lib by blast
  have last: "regexp_MatchString env = MatchString \<and>
    watcher_Get env (opPolIdentifier (pol_Namespace policy) (pol_Name policy))
      subscriptionGVK (sub_Namespace sub) (sub_Name sub) = Inr (Some a) \<and>
    a < next_addr s \<and>
    ToUnstructured env (SubscriptionObj sub) = Inr d \<and>
    handleKeys env d (heap s a) (removeFieldsForComparison env (heap s a))
      (ComplianceType (pol_Spec policy)) = ([], False, merged) \<and>
    FromUnstructured_Subscription env merged = Inr mergedSub \<and>
    \<not> mentions mergedSub
        (sc_Message (GetCondition (Conditions (sub_Status mergedSub))
           SubscriptionResolutionFailed)) \<longrightarrow>
      fst (handleSubscription env policy (Some sub) s) =
        (Some mergedSub, [],
         updateStatus_changed env (status_log s) (matchesCond ''Subscription'')
           [matchedObj (UnstructuredObj (heap s a))], None) \<and>
      status_log (snd (handleSubscription env policy (Some sub) s)) =
        status_log s @ [(matchesCond ''Subscription'',
                         [matchedObj (UnstructuredObj (heap s a))])]"
    using handler by (rule impI)
  show ?thesis
    by (intro conjI) (rule first pkgs runs last)+
qed

text \<open>
  On the example cluster the subscription found is the one for gatekeeper-operator-product
  and the failure in its status names gatekeeper-operator: the reconciler reports that the
  subscription matches.
\<close>

theorem correlation_at_word_boundaries_witness:
  "regexp_MatchString unresolved_env = MatchString \<and>
   sc_Status (GetCondition (Conditions (sub_Status unresolved_sub)) SubscriptionResolutionFailed)
     = ConditionTrue \<and>
   sc_Message (GetCondition (Conditions (sub_Status unresolved_sub)) SubscriptionResolutionFailed)
     = operator_message \<and>
   \<not> mentions unresolved_sub operator_message \<and>
   fst (handleSubscription unresolved_env example_policy (Some example_sub) example_cluster) =
     (Some unresolved_sub, [], True, None) \<and>
   status_log (snd (handleSubscription unresolved_env example_policy (Some example_sub)
                      example_cluster)) =
     [(matchesCond ''Subscription'', [matchedObj (UnstructuredObj example_sub_content)])]"
proof -
  have lib: "regexp_MatchString unresolved_env = MatchString"
    by (simp add: unresolved_env_def example_env_def)
  have get: "watcher_Get unresolved_env
               (opPolIdentifier (pol_Namespace example_policy) (pol_Name example_policy))
               subscriptionGVK (sub_Namespace example_sub) (sub_Name example_sub) = Inr (Some 2)"
    by (simp add: unresolved_env_def)
  have alloc: "2 < next_addr example_cluster" by (simp add: example_cluster_def)
  have conv: "ToUnstructured unresolved_env (SubscriptionObj example_sub) = Inr Map.empty"
    by (simp add: unresolved_env_def example_env_def)
  have keys: "handleKeys unresolved_env Map.empty (heap example_cluster 2)
                (removeFieldsForComparison unresolved_env (heap example_cluster 2))
                (ComplianceType (pol_Spec example_policy)) = ([], False, example_sub_content)"
    by (simp add: unresolved_env_def example_env_def example_cluster_def example_cache_def)
  have typed: "FromUnstructured_Subscription unresolved_env example_sub_content
                 = Inr unresolved_sub"
    by (simp add: unresolved_env_def)
  have cond: "GetCondition (Conditions (sub_Status unresolved_sub)) SubscriptionResolutionFailed
                = resolution_failure"
    by (simp add: unresolved_sub_def resolution_failure_def SubscriptionResolutionFailed_def)
  have msg: "sc_Message resolution_failure = operator_message"
    "sc_Status resolution_failure = ConditionTrue"
    by (simp_all add: resolution_failure_def)
  note T = correlation_at_word_boundaries [of unresolved_env unresolved_sub operator_message
      example_policy example_sub 2 example_cluster Map.empty example_sub_content unresolved_sub]
  from T lib have "messageIncludesSubscription unresolved_env unresolved_sub operator_message
                     = Inr (mentions unresolved_sub operator_message)"
    by blast
  moreover from T have "messageIncludesSubscription example_env unresolved_sub operator_message
                     = Inr False"
    by blast
  moreover have "messageIncludesSubscription unresolved_env unresolved_sub operator_message
                   = messageIncludesSubscription example_env unresolved_sub operator_message"
    by (simp add: messageIncludesSubscription_def unresolved_env_def)
  ultimately have other: "\<not> mentions unresolved_sub operator_message" by simp
  have st: "status_log example_cluster = []" "heap example_cluster 2 = example_sub_content"
    "updateStatus_changed unresolved_env = (\<lambda>st c rel. True)"
    by (simp_all add: example_cluster_def example_cache_def unresolved_env_def example_env_def)
  from T lib get alloc conv keys typed other
  show ?thesis by (simp add: cond msg st)
qed

subsection \<open>The approval of install plans\<close>

lemma approvableLoop_snd:
  "snd (approvableLoop versions h ips (v, acc)) =
     acc @ filter (\<lambda>ip. approvable versions (h ip)) ips"
  by (induction ips arbitrary: v acc) (auto simp: approvable_def Let_def split: sum.splits)

lemma approvableLoop_fst_none:
  "filter (\<lambda>ip. approvable versions (h ip)) ips = [] \<Longrightarrow>
   fst (approvableLoop versions h ips (v, acc)) = v"
proof (induction ips arbitrary: acc)
  case Nil
  then show ?case by simp
next
  case (Cons y ys)
  then show ?case
    by (auto simp: approvable_def Let_def split: sum.splits if_splits)
qed

lemma approvableLoop_fst_single:
  "filter (\<lambda>ip. approvable versions (h ip)) ips = [ip] \<Longrightarrow>
   planCSVNames (h ip) = Inr [version] \<Longrightarrow>
   fst (approvableLoop versions h ips (v, acc)) = version"
proof (induction ips arbitrary: v acc)
  case Nil
  then show ?case by simp
next
  case (Cons x xs)
  show ?case
  proof (cases "approvable versions (h x)")
    case True
    with Cons.prems have x: "x = ip"
      and rest: "filter (\<lambda>ip. approvable versions (h ip)) xs = []"
      by auto
    from True Cons.prems(2) x show ?thesis
      by (simp add: approvable_def Let_def approvableLoop_fst_none [OF rest])
  next
    case False
    with Cons.prems have "filter (\<lambda>ip. approvable versions (h ip)) xs = [ip]" by simp
    from Cons.IH [OF this Cons.prems(2)] False show ?thesis
      by (auto simp: approvable_def Let_def split: sum.splits if_splits)
  qed
qed

lemma approvable_iff:
  "approvable versions installPlan \<longleftrightarrow>
     (\<exists>v. planCSVNames installPlan = Inr [v] \<and> (versions = [] \<or> v \<in> set versions))"
proof
  assume "approvable versions installPlan"
  then obtain ipCSVs where c: "planCSVNames installPlan = Inr ipCSVs" "length ipCSVs = 1"
    "versions = [] \<or> hd ipCSVs \<in> set versions"
    by (auto simp: approvable_def split: sum.splits)
  from c(2) obtain v where "ipCSVs = [v]" by (cases ipCSVs) auto
  with c show "\<exists>v. planCSVNames installPlan = Inr [v] \<and> (versions = [] \<or> v \<in> set versions)"
    by auto
next
  assume "\<exists>v. planCSVNames installPlan = Inr [v] \<and> (versions = [] \<or> v \<in> set versions)"
  then show "approvable versions installPlan"
    by (auto simp: approvable_def)
qed

lemma planCSVNames_spec_map:
  "planCSVNames obj = Inr names \<Longrightarrow> \<exists>m. obj ''spec'' = Some (JObj m)"
  by (auto simp: planCSVNames_def NestedStringSlice_def Let_def
      split: prod.splits option.splits json.splits if_splits)

lemma handleInstallPlan_approval_step:
  assumes enf: "IsEnforce (RemediationAction (pol_Spec policy))"
    and list: "watcher_List env (opPolIdentifier (pol_Namespace policy) (pol_Name policy))
                 installPlanGVK (sub_Namespace sub) = Inr found"
    and owned: "owned = ownedInstallPlans sub (heap s) found"
    and nofail: "\<not> currentPlanFailed sub (heap s) owned"
    and noinst: "\<not> anyInstalling (heap s) owned"
    and pending: "pending = ipsRequiringApproval (heap s) owned" "pending \<noteq> []"
    and ok: "ok = filter (\<lambda>ip. approvable (Versions (pol_Spec policy)) (heap s ip)) pending"
  shows "handleInstallPlan env policy (Some sub) s =
     (if length ok \<noteq> 1 then
        ((updateStatus_changed env (status_log s)
            (installPlanUpgradeCond (allUpgradeVersions (heap s) pending) (map (heap s) ok))
            (relatedInstallPlans (heap s) owned), None),
         s\<lparr>status_log := status_log s @
              [(installPlanUpgradeCond (allUpgradeVersions (heap s) pending) (map (heap s) ok),
                relatedInstallPlans (heap s) owned)]\<rparr>)
      else
        case SetNestedField (heap s (hd ok)) (JBool True) [''spec'', ''approved''] of
          Inl err \<Rightarrow> ((False, Some (Wrapf ''error approving InstallPlan: '' err)), s)
        | Inr approved \<Rightarrow>
            (case client_Update env approved of
               Inl e \<Rightarrow>
                 ((False, Some (Wrapf ''error updating approved InstallPlan: '' e)),
                  s\<lparr>heap := (heap s)(hd ok := approved),
                    requests := requests s @ [Update approved]\<rparr>)
             | Inr result \<Rightarrow>
                 ((updateStatus_changed env (status_log s)
                     (installPlanApprovedCond
                        (fst (approvableLoop (Versions (pol_Spec policy)) (heap s) pending
                                ([], []))))
                     (relatedInstallPlans (heap s) owned), None),
                  s\<lparr>heap := (heap s)(hd ok := result),
                    requests := requests s @ [Update approved],
                    status_log := status_log s @
                      [(installPlanApprovedCond
                          (fst (approvableLoop (Versions (pol_Spec policy)) (heap s) pending
                                  ([], []))),
                        relatedInstallPlans (heap s) owned)]\<rparr>)))"
proof -
  have owned0: "ownedInstallPlans sub (heap s) found \<noteq> []"
    using pending owned by (auto simp: ipsRequiringApproval_def)
  have loop: "snd (approvableLoop (Versions (pol_Spec policy)) (heap s) pending ([], [])) = ok"
    by (simp add: approvableLoop_snd ok)
  have inf: "\<not> IsInform (RemediationAction (pol_Spec policy))"
    using enf by (simp add: IsInform_def IsEnforce_def)
  show ?thesis
    using list owned0 nofail noinst pending inf loop
    by (simp add: handleInstallPlan_def Let_def case_prod_unfold owned [symmetric]
        updateStatus_def r_Update_def split: sum.splits)
qed

text \<open>
  C2. In enforce mode, when the approver reaches the plans that require approval (the
  current plan has not failed and no plan is installing): the plans it takes for
  approvable are those whose list of target versions is read as exactly one version that
  is in the list of acceptable versions of the policy, or that list is empty. If exactly
  one plan is approvable, an update of that plan with \<open>spec.approved\<close> set is the only
  request sent, and when the server accepts it the condition is the approved condition,
  Compliant, naming that version. Otherwise no request is sent, no object changes, and the
  condition is the upgrade-available condition, NonCompliant, with no error.
\<close>

theorem handleInstallPlan_enforce_approval:
  assumes enf: "IsEnforce (RemediationAction (pol_Spec policy))"
    and list: "watcher_List env (opPolIdentifier (pol_Namespace policy) (pol_Name policy))
                 installPlanGVK (sub_Namespace sub) = Inr found"
    and owned: "owned = ownedInstallPlans sub (heap s) found"
    and nofail: "\<not> currentPlanFailed sub (heap s) owned"
    and noinst: "\<not> anyInstalling (heap s) owned"
    and pending: "pending = ipsRequiringApproval (heap s) owned" "pending \<noteq> []"
    and ok: "ok = filter (\<lambda>ip. approvable (Versions (pol_Spec policy)) (heap s ip)) pending"
  shows
   "snd (approvableLoop (Versions (pol_Spec policy)) (heap s) pending ([], [])) = ok \<and>
    (\<forall>ip \<in> set pending.
       ip \<in> set ok \<longleftrightarrow>
         (\<exists>v. planCSVNames (heap s ip) = Inr [v] \<and>
              (Versions (pol_Spec policy) = [] \<or> v \<in> set (Versions (pol_Spec policy))))) \<and>
    (ok = [ip] \<longrightarrow>
       (\<exists>v m. planCSVNames (heap s ip) = Inr [v] \<and> heap s ip ''spec'' = Some (JObj m) \<and>
          requests (snd (handleInstallPlan env policy (Some sub) s)) =
            requests s @
            [Update ((heap s ip)(''spec'' \<mapsto> JObj (m(''approved'' \<mapsto> JBool True))))] \<and>
          (\<forall>b. b \<noteq> ip \<longrightarrow> heap (snd (handleInstallPlan env policy (Some sub) s)) b = heap s b) \<and>
          (\<forall>result.
             client_Update env ((heap s ip)(''spec'' \<mapsto> JObj (m(''approved'' \<mapsto> JBool True))))
               = Inr result \<longrightarrow>
             fst (handleInstallPlan env policy (Some sub) s) =
               (updateStatus_changed env (status_log s) (installPlanApprovedCond v)
                  (relatedInstallPlans (heap s) owned), None) \<and>
             status_log (snd (handleInstallPlan env policy (Some sub) s)) =
               status_log s @
               [(installPlanApprovedCond v, relatedInstallPlans (heap s) owned)] \<and>
             Condition_Status (installPlanApprovedCond v) = Some ConditionTrue))) \<and>
    (length ok \<noteq> 1 \<longrightarrow>
       fst (handleInstallPlan env policy (Some sub) s) =
         (updateStatus_changed env (status_log s)
            (installPlanUpgradeCond (allUpgradeVersions (heap s) pending) (map (heap s) ok))
            (relatedInstallPlans (heap s) owned), None) \<and>
       status_log (snd (handleInstallPlan env policy (Some sub) s)) =
         status_log s @
         [(installPlanUpgradeCond (allUpgradeVersions (heap s) pending) (map (heap s) ok),
           relatedInstallPlans (heap s) owned)] \<and>
       Condition_Status
         (installPlanUpgradeCond (allUpgradeVersions (heap s) pending) (map (heap s) ok))
         = Some ConditionFalse \<and>
       requests (snd (handleInstallPlan env policy (Some sub) s)) = requests s \<and>
       heap (snd (handleInstallPlan env policy (Some sub) s)) = heap s)"
proof (intro conjI impI ballI)
  show "snd (approvableLoop (Versions (pol_Spec policy)) (heap s) pending ([], [])) = ok"
    by (simp add: approvableLoop_snd ok)
next
  fix p assume "p \<in> set pending"
  then show "p \<in> set ok \<longleftrightarrow>
         (\<exists>v. planCSVNames (heap s p) = Inr [v] \<and>
              (Versions (pol_Spec policy) = [] \<or> v \<in> set (Versions (pol_Spec policy))))"
    by (simp add: ok approvable_iff)
next
  note step = handleInstallPlan_approval_step [OF enf list owned nofail noinst pending ok]
  assume one: "ok = [ip]"
  then have "ip \<in> set ok" by simp
  then have "approvable (Versions (pol_Spec policy)) (heap s ip)"
    by (simp add: ok)
  then obtain v where v: "planCSVNames (heap s ip) = Inr [v]"
    by (auto simp: approvable_iff)
  then obtain m where m: "heap s ip ''spec'' = Some (JObj m)"
    using planCSVNames_spec_map by blast
  have set: "SetNestedField (heap s ip) (JBool True) [''spec'', ''approved''] =
               Inr ((heap s ip)(''spec'' \<mapsto> JObj (m(''approved'' \<mapsto> JBool True))))"
    using m by simp
  have ver: "fst (approvableLoop (Versions (pol_Spec policy)) (heap s) pending ([], [])) = v"
    using approvableLoop_fst_single [of "Versions (pol_Spec policy)" "heap s" pending ip v]
      one v ok by simp
  show "\<exists>v m. planCSVNames (heap s ip) = Inr [v] \<and> heap s ip ''spec'' = Some (JObj m) \<and>
          requests (snd (handleInstallPlan env policy (Some sub) s)) =
            requests s @
            [Update ((heap s ip)(''spec'' \<mapsto> JObj (m(''approved'' \<mapsto> JBool True))))] \<and>
          (\<forall>b. b \<noteq> ip \<longrightarrow> heap (snd (handleInstallPlan env policy (Some sub) s)) b = heap s b) \<and>
          (\<forall>result.
             client_Update env ((heap s ip)(''spec'' \<mapsto> JObj (m(''approved'' \<mapsto> JBool True))))
               = Inr result \<longrightarrow>
             fst (handleInstallPlan env policy (Some sub) s) =
               (updateStatus_changed env (status_log s) (installPlanApprovedCond v)
                  (relatedInstallPlans (heap s) owned), None) \<and>
             status_log (snd (handleInstallPlan env policy (Some sub) s)) =
               status_log s @
               [(installPlanApprovedCond v, relatedInstallPlans (heap s) owned)] \<and>
             Condition_Status (installPlanApprovedCond v) = Some ConditionTrue)"
    apply (rule exI [of _ v], rule exI [of _ m])
    using v m by (simp add: step one set ver del: SetNestedField.simps split: sum.splits)
next
  note step = handleInstallPlan_approval_step [OF enf list owned nofail noinst pending ok]
  assume n: "length ok \<noteq> 1"
  show "fst (handleInstallPlan env policy (Some sub) s) =
         (updateStatus_changed env (status_log s)
            (installPlanUpgradeCond (allUpgradeVersions (heap s) pending) (map (heap s) ok))
            (relatedInstallPlans (heap s) owned), None)"
    and "status_log (snd (handleInstallPlan env policy (Some sub) s)) =
         status_log s @
         [(installPlanUpgradeCond (allUpgradeVersions (heap s) pending) (map (heap s) ok),
           relatedInstallPlans (heap s) owned)]"
    and "Condition_Status
         (installPlanUpgradeCond (allUpgradeVersions (heap s) pending) (map (heap s) ok))
         = Some ConditionFalse"
    and "requests (snd (handleInstallPlan env policy (Some sub) s)) = requests s"
    and "heap (snd (handleInstallPlan env policy (Some sub) s)) = heap s"
    using n by (simp_all add: step)
qed

text \<open>
  Two plans of the example subscription require approval. Under the example policy, which
  accepts the version of the first plan only, that plan is approved; under the policy that
  accepts any version both are approvable and none is approved.
\<close>

theorem handleInstallPlan_enforce_approval_witness:
  "IsEnforce (RemediationAction (pol_Spec example_policy)) \<and>
   IsEnforce (RemediationAction (pol_Spec any_version_policy)) \<and>
   watcher_List plans_env
     (opPolIdentifier (pol_Namespace example_policy) (pol_Name example_policy))
     installPlanGVK (sub_Namespace example_sub) = Inr [3, 4] \<and>
   ownedInstallPlans example_sub (heap plans_cluster) [3, 4] = [3, 4] \<and>
   \<not> currentPlanFailed example_sub (heap plans_cluster) [3, 4] \<and>
   \<not> anyInstalling (heap plans_cluster) [3, 4] \<and>
   ipsRequiringApproval (heap plans_cluster) [3, 4] = [3, 4] \<and>
   filter (\<lambda>ip. approvable (Versions (pol_Spec example_policy)) (heap plans_cluster ip)) [3, 4]
     = [3] \<and>
   filter (\<lambda>ip. approvable (Versions (pol_Spec any_version_policy)) (heap plans_cluster ip))
     [3, 4] = [3, 4] \<and>
   requests (snd (handleInstallPlan plans_env example_policy (Some example_sub) plans_cluster)) =
     [Update (plan_a(''spec'' \<mapsto>
        JObj [''clusterServiceVersionNames'' \<mapsto>
                JArr [JStr ''gatekeeper-operator-product.v3.11.1''],
              ''approved'' \<mapsto> JBool True]))] \<and>
   status_log (snd (handleInstallPlan plans_env example_policy (Some example_sub) plans_cluster))
     = [(installPlanApprovedCond ''gatekeeper-operator-product.v3.11.1'',
         [existingInstallPlanObj plan_a ''RequiresApproval'',
          existingInstallPlanObj plan_b ''RequiresApproval''])] \<and>
   requests (snd (handleInstallPlan plans_env any_version_policy (Some example_sub)
                    plans_cluster)) = [] \<and>
   status_log (snd (handleInstallPlan plans_env any_version_policy (Some example_sub)
                      plans_cluster)) =
     [(installPlanUpgradeCond
         [''[gatekeeper-operator-product.v3.11.1]'', ''[gatekeeper-operator-product.v3.12.0]'']
         [plan_a, plan_b],
       [existingInstallPlanObj plan_a ''RequiresApproval'',
        existingInstallPlanObj plan_b ''RequiresApproval''])]"
proof -
  have enf: "IsEnforce (RemediationAction (pol_Spec example_policy))"
    "IsEnforce (RemediationAction (pol_Spec any_version_policy))"
    by (simp_all add: any_version_policy_def example_policy_def IsEnforce_def)
  have list: "watcher_List plans_env
     (opPolIdentifier (pol_Namespace example_policy) (pol_Name example_policy))
     installPlanGVK (sub_Namespace example_sub) = Inr [3, 4]"
    "watcher_List plans_env
     (opPolIdentifier (pol_Namespace any_version_policy) (pol_Name any_version_policy))
     installPlanGVK (sub_Namespace example_sub) = Inr [3, 4]"
    by (simp_all add: plans_env_def)
  have hp: "heap plans_cluster 3 = plan_a" "heap plans_cluster 4 = plan_b"
    "requests plans_cluster = []" "status_log plans_cluster = []"
    by (simp_all add: plans_cluster_def example_cluster_def)
  have phase: "planPhase plan_a = ''RequiresApproval''" "planPhase plan_b = ''RequiresApproval''"
    and names: "planCSVNames plan_a = Inr [''gatekeeper-operator-product.v3.11.1'']"
      "planCSVNames plan_b = Inr [''gatekeeper-operator-product.v3.12.0'']"
    and owners: "ownerMatch example_sub (GetOwnerReferences plan_a)"
      "ownerMatch example_sub (GetOwnerReferences plan_b)"
    and spec: "plan_a ''spec'' =
        Some (JObj [''clusterServiceVersionNames'' \<mapsto>
                      JArr [JStr ''gatekeeper-operator-product.v3.11.1''],
                    ''approved'' \<mapsto> JBool False])"
    by (simp_all add: planPhase_def planCSVNames_def NestedStringSlice_def plan_a_def
        plan_b_def plan_content_def NestedString_def GetOwnerReferences_def
        getNestedString_def example_sub_def subscriptionGVK_def GroupVersion_String_def)
  have owned: "ownedInstallPlans example_sub (heap plans_cluster) [3, 4] = [3, 4]"
    by (simp add: ownedInstallPlans_def hp owners)
  have nofail: "\<not> currentPlanFailed example_sub (heap plans_cluster) [3, 4]"
    by (simp add: currentPlanFailed_def example_sub_def)
  have noinst: "\<not> anyInstalling (heap plans_cluster) [3, 4]"
    by (simp add: anyInstalling_def hp phase InstallPlanPhaseInstalling_def)
  have pending: "ipsRequiringApproval (heap plans_cluster) [3, 4] = [3, 4]" "[3, 4::nat] \<noteq> []"
    by (simp_all add: ipsRequiringApproval_def hp phase InstallPlanPhaseRequiresApproval_def)
  have ok1: "filter (\<lambda>ip. approvable (Versions (pol_Spec example_policy))
                           (heap plans_cluster ip)) [3, 4] = [3]"
    and ok2: "filter (\<lambda>ip. approvable (Versions (pol_Spec any_version_policy))
                           (heap plans_cluster ip)) [3, 4] = [3, 4]"
    by (simp_all add: approvable_def hp names example_policy_def any_version_policy_def)
  have upd: "client_Update plans_env = (\<lambda>obj. Inr obj)"
    "updateStatus_changed plans_env = (\<lambda>st c rel. True)"
    by (simp_all add: plans_env_def example_env_def)
  have rel: "relatedInstallPlans (heap plans_cluster) [3, 4] =
               [existingInstallPlanObj plan_a ''RequiresApproval'',
                existingInstallPlanObj plan_b ''RequiresApproval'']"
    and vers: "allUpgradeVersions (heap plans_cluster) [3, 4] =
               [''[gatekeeper-operator-product.v3.11.1]'',
                ''[gatekeeper-operator-product.v3.12.0]'']"
    by (simp_all add: relatedInstallPlans_def allUpgradeVersions_def hp phase names Sprintf_v_def)
  note T1 = handleInstallPlan_enforce_approval
      [OF enf(1) list(1) owned [symmetric] nofail noinst pending(1) [symmetric] pending(2)
          ok1 [symmetric], of 3]
  note T2 = handleInstallPlan_enforce_approval
      [OF enf(2) list(2) owned [symmetric] nofail noinst pending(1) [symmetric] pending(2)
          ok2 [symmetric], of 3]
  note one = T1 [THEN conjunct2, THEN conjunct2, THEN conjunct1, THEN mp, OF refl]
  from one obtain v m where a:
      "planCSVNames (heap plans_cluster 3) = Inr [v] \<and>
       heap plans_cluster 3 ''spec'' = Some (JObj m) \<and>
       requests (snd (handleInstallPlan plans_env example_policy (Some example_sub)
                        plans_cluster)) =
         requests plans_cluster @
         [Update ((heap plans_cluster 3)(''spec'' \<mapsto> JObj (m(''approved'' \<mapsto> JBool True))))] \<and>
       (\<forall>b. b \<noteq> 3 \<longrightarrow>
            heap (snd (handleInstallPlan plans_env example_policy (Some example_sub)
                         plans_cluster)) b = heap plans_cluster b) \<and>
       (\<forall>result.
          client_Update plans_env
            ((heap plans_cluster 3)(''spec'' \<mapsto> JObj (m(''approved'' \<mapsto> JBool True))))
            = Inr result \<longrightarrow>
          fst (handleInstallPlan plans_env example_policy (Some example_sub) plans_cluster) =
            (updateStatus_changed plans_env (status_log plans_cluster)
               (installPlanApprovedCond v) (relatedInstallPlans (heap plans_cluster) [3, 4]),
             None) \<and>
          status_log (snd (handleInstallPlan plans_env example_policy (Some example_sub)
                             plans_cluster)) =
            status_log plans_cluster @
            [(installPlanApprovedCond v, relatedInstallPlans (heap plans_cluster) [3, 4])] \<and>
          Condition_Status (installPlanApprovedCond v) = Some ConditionTrue)"
    by (elim exE)
  from a have v: "v = ''gatekeeper-operator-product.v3.11.1''"
    by (simp add: hp names)
  from a have m: "m = [''clusterServiceVersionNames'' \<mapsto>
                          JArr [JStr ''gatekeeper-operator-product.v3.11.1''],
                        ''approved'' \<mapsto> JBool False]"
    by (simp add: hp spec)
  have r1: "requests (snd (handleInstallPlan plans_env example_policy (Some example_sub)
                        plans_cluster)) =
     [Update (plan_a(''spec'' \<mapsto>
        JObj [''clusterServiceVersionNames'' \<mapsto>
                JArr [JStr ''gatekeeper-operator-product.v3.11.1''],
              ''approved'' \<mapsto> JBool True]))]"
    using a by (simp add: hp m)
  have s1: "status_log (snd (handleInstallPlan plans_env example_policy (Some example_sub)
                               plans_cluster))
     = [(installPlanApprovedCond ''gatekeeper-operator-product.v3.11.1'',
         [existingInstallPlanObj plan_a ''RequiresApproval'',
          existingInstallPlanObj plan_b ''RequiresApproval''])]"
    using a by (simp add: upd hp rel v)
  have two: "length [3::nat, 4] \<noteq> 1" by simp
  note many = T2 [THEN conjunct2, THEN conjunct2, THEN conjunct2, THEN mp, OF two]
  from many have r2: "requests (snd (handleInstallPlan plans_env any_version_policy
                                     (Some example_sub) plans_cluster)) = []"
    and s2: "status_log (snd (handleInstallPlan plans_env any_version_policy (Some example_sub)
                      plans_cluster)) =
     [(installPlanUpgradeCond
         [''[gatekeeper-operator-product.v3.11.1]'', ''[gatekeeper-operator-product.v3.12.0]'']
         [plan_a, plan_b],
       [existingInstallPlanObj plan_a ''RequiresApproval'',
        existingInstallPlanObj plan_b ''RequiresApproval''])]"
    by (simp_all add: hp rel vers)
  from enf list(1) owned nofail noinst pending(1) ok1 ok2 r1 s1 r2 s2
  show ?thesis by simp
qed

subsection \<open>Errors of the pipeline\<close>

lemma emitLoop_errs:
  "fst (emitLoop env conds (errs, s)) = errs @ List.map_filter (emitComplianceEvent env) conds"
  by (induction conds arbitrary: errs s) (auto split: option.splits)

lemma Reconcile_errors:
  assumes "client_Get env ns name = Inr policy"
    and "StartQueryBatch env (opPolIdentifier ns name) = None"
    and "handleResources env policy s = ((conds, changed, err), s1)"
  shows "fst (Reconcile env ns name s) =
           NewAggregate
             ((case err of Some e \<Rightarrow> [e] | None \<Rightarrow> []) @
              (if changed
               then (case client_StatusUpdate env (status_log s1) of Some e \<Rightarrow> [e] | None \<Rightarrow> [])
               else []) @
              List.map_filter (emitComplianceEvent env)
                (if changed then conds @ [calculateComplianceCondition env (status_log s1)]
                 else conds))"
  using assms
  by (auto simp: Reconcile_def Let_def case_prod_unfold emitLoop_errs split: option.splits)

text \<open>
  Conversely, an error that \<open>handleResources\<close> returns is the error of one stage, reached
  after every earlier stage returned none.
\<close>

lemma handleResources_error_stage:
  assumes run: "handleResources env policy s = ((conds, changed, Some e), s')"
  shows
   "(\<exists>dSub dOG. buildResources env policy s = ((dSub, dOG, changed, Some e), s') \<and> conds = []) \<or>
    (\<exists>dSub dOG c0 s0 c1.
       buildResources env policy s = ((dSub, dOG, c0, None), s0) \<and>
       handleOpGroup env policy dOG s0 = ((conds, c1, Some e), s') \<and>
       changed = (c0 \<or> c1)) \<or>
    (\<exists>dSub dOG c0 s0 e1 c1 s1 sub e2 c2.
       buildResources env policy s = ((dSub, dOG, c0, None), s0) \<and>
       handleOpGroup env policy dOG s0 = ((e1, c1, None), s1) \<and>
       handleSubscription env policy dSub s1 = ((sub, e2, c2, Some e), s') \<and>
       conds = e1 @ e2 \<and> changed = (c0 \<or> c1 \<or> c2)) \<or>
    (\<exists>dSub dOG c0 s0 e1 c1 s1 sub e2 c2 s2 c3.
       buildResources env policy s = ((dSub, dOG, c0, None), s0) \<and>
       handleOpGroup env policy dOG s0 = ((e1, c1, None), s1) \<and>
       handleSubscription env policy dSub s1 = ((sub, e2, c2, None), s2) \<and>
       handleInstallPlan env policy sub s2 = ((c3, Some e), s') \<and>
       conds = e1 @ e2 \<and> changed = (c0 \<or> c1 \<or> c2 \<or> c3)) \<or>
    (\<exists>dSub dOG c0 s0 e1 c1 s1 sub e2 c2 s2 c3 s3 csv c4.
       buildResources env policy s = ((dSub, dOG, c0, None), s0) \<and>
       handleOpGroup env policy dOG s0 = ((e1, c1, None), s1) \<and>
       handleSubscription env policy dSub s1 = ((sub, e2, c2, None), s2) \<and>
       handleInstallPlan env policy sub s2 = ((c3, None), s3) \<and>
       handleCSV env policy sub s3 = ((csv, c4, Some e), s') \<and>
       conds = e1 @ e2 \<and> changed = (c0 \<or> c1 \<or> c2 \<or> c3 \<or> c4)) \<or>
    (\<exists>dSub dOG c0 s0 e1 c1 s1 sub e2 c2 s2 c3 s3 csv c4 s4 c5.
       buildResources env policy s = ((dSub, dOG, c0, None), s0) \<and>
       handleOpGroup env policy dOG s0 = ((e1, c1, None), s1) \<and>
       handleSubscription env policy dSub s1 = ((sub, e2, c2, None), s2) \<and>
       handleInstallPlan env policy sub s2 = ((c3, None), s3) \<and>
       handleCSV env policy sub s3 = ((csv, c4, None), s4) \<and>
       handleDeployment env policy csv s4 = ((c5, Some e), s') \<and>
       conds = e1 @ e2 \<and> changed = (c0 \<or> c1 \<or> c2 \<or> c3 \<or> c4 \<or> c5)) \<or>
    (\<exists>dSub dOG c0 s0 e1 c1 s1 sub e2 c2 s2 c3 s3 csv c4 s4 c5 s5 c6.
       buildResources env policy s = ((dSub, dOG, c0, None), s0) \<and>
       handleOpGroup env policy dOG s0 = ((e1, c1, None), s1) \<and>
       handleSubscription env policy dSub s1 = ((sub, e2, c2, None), s2) \<and>
       handleInstallPlan env policy sub s2 = ((c3, None), s3) \<and>
       handleCSV env policy sub s3 = ((csv, c4, None), s4) \<and>
       handleDeployment env policy csv s4 = ((c5, None), s5) \<and>
       handleCatalogSource env policy sub s5 = ((c6, Some e), s') \<and>
       conds = e1 @ e2 \<and> changed = (c0 \<or> c1 \<or> c2 \<or> c3 \<or> c4 \<or> c5 \<or> c6))"
  using run
  by (simp add: handleResources_def Let_def split: prod.splits option.splits)

lemma emitLoop_state:
  "status_log (snd (emitLoop env conds (errs, s))) = status_log s \<and>
   requests (snd (emitLoop env conds (errs, s))) = requests s \<and>
   emitted (snd (emitLoop env conds (errs, s))) = emitted s @ conds"
  by (induction conds arbitrary: errs s) auto

lemma Reconcile_state:
  assumes "client_Get env ns name = Inr policy"
    and "StartQueryBatch env (opPolIdentifier ns name) = None"
    and "handleResources env policy s = ((conds, changed, err), s1)"
  shows "requests (snd (Reconcile env ns name s)) =
           requests s1 @ (if changed then [StatusUpdate (status_log s1)] else []) \<and>
         status_log (snd (Reconcile env ns name s)) = status_log s1 \<and>
         emitted (snd (Reconcile env ns name s)) =
           emitted s1 @
           (if changed then conds @ [calculateComplianceCondition env (status_log s1)]
            else conds)"
  using assms
  by (simp add: Reconcile_def Let_def case_prod_unfold emitLoop_state)

text \<open>
  C1, as the code has it. When one stage of the pipeline returns a hard error after every
  earlier stage returned none, \<open>handleResources\<close> returns at once with that error, with the
  conditions and the status-changed flag gathered up to that stage, and in the state that
  stage left: no later stage runs. \<open>Reconcile\<close> then still sends the status update when the
  status changed and emits the compliance events, and the error it returns aggregates the
  error of that stage, the error of the status update and the errors of the events.
\<close>

theorem pipeline_stops_at_first_error:
  assumes stage:
   "(\<exists>dSub dOG. buildResources env policy s = ((dSub, dOG, changed, Some e), s') \<and> conds = []) \<or>
    (\<exists>dSub dOG c0 s0 c1.
       buildResources env policy s = ((dSub, dOG, c0, None), s0) \<and>
       handleOpGroup env policy dOG s0 = ((conds, c1, Some e), s') \<and>
       changed = (c0 \<or> c1)) \<or>
    (\<exists>dSub dOG c0 s0 e1 c1 s1 sub e2 c2.
       buildResources env policy s = ((dSub, dOG, c0, None), s0) \<and>
       handleOpGroup env policy dOG s0 = ((e1, c1, None), s1) \<and>
       handleSubscription env policy dSub s1 = ((sub, e2, c2, Some e), s') \<and>
       conds = e1 @ e2 \<and> changed = (c0 \<or> c1 \<or> c2)) \<or>
    (\<exists>dSub dOG c0 s0 e1 c1 s1 sub e2 c2 s2 c3.
       buildResources env policy s = ((dSub, dOG, c0, None), s0) \<and>
       handleOpGroup env policy dOG s0 = ((e1, c1, None), s1) \<and>
       handleSubscription env policy dSub s1 = ((sub, e2, c2, None), s2) \<and>
       handleInstallPlan env policy sub s2 = ((c3, Some e), s') \<and>
       conds = e1 @ e2 \<and> changed = (c0 \<or> c1 \<or> c2 \<or> c3)) \<or>
    (\<exists>dSub dOG c0 s0 e1 c1 s1 sub e2 c2 s2 c3 s3 csv c4.
       buildResources env policy s = ((dSub, dOG, c0, None), s0) \<and>
       handleOpGroup env policy dOG s0 = ((e1, c1, None), s1) \<and>
       handleSubscription env policy dSub s1 = ((sub, e2, c2, None), s2) \<and>
       handleInstallPlan env policy sub s2 = ((c3, None), s3) \<and>
       handleCSV env policy sub s3 = ((csv, c4, Some e), s') \<and>
       conds = e1 @ e2 \<and> changed = (c0 \<or> c1 \<or> c2 \<or> c3 \<or> c4)) \<or>
    (\<exists>dSub dOG c0 s0 e1 c1 s1 sub e2 c2 s2 c3 s3 csv c4 s4 c5.
       buildResources env policy s = ((dSub, dOG, c0, None), s0) \<and>
       handleOpGroup env policy dOG s0 = ((e1, c1, None), s1) \<and>
       handleSubscription env policy dSub s1 = ((sub, e2, c2, None), s2) \<and>
       handleInstallPlan env policy sub s2 = ((c3, None), s3) \<and>
       handleCSV env policy sub s3 = ((csv, c4, None), s4) \<and>
       handleDeployment env policy csv s4 = ((c5, Some e), s') \<and>
       conds = e1 @ e2 \<and> changed = (c0 \<or> c1 \<or> c2 \<or> c3 \<or> c4 \<or> c5)) \<or>
    (\<exists>dSub dOG c0 s0 e1 c1 s1 sub e2 c2 s2 c3 s3 csv c4 s4 c5 s5 c6.
       buildResources env policy s = ((dSub, dOG, c0, None), s0) \<and>
       handleOpGroup env policy dOG s0 = ((e1, c1, None), s1) \<and>
       handleSubscription env policy dSub s1 = ((sub, e2, c2, None), s2) \<and>
       handleInstallPlan env policy sub s2 = ((c3, None), s3) \<and>
       handleCSV env policy sub s3 = ((csv, c4, None), s4) \<and>
       handleDeployment env policy csv s4 = ((c5, None), s5) \<and>
       handleCatalogSource env policy sub s5 = ((c6, Some e), s') \<and>
       conds = e1 @ e2 \<and> changed = (c0 \<or> c1 \<or> c2 \<or> c3 \<or> c4 \<or> c5 \<or> c6))"
  shows
   "handleResources env policy s = ((conds, changed, Some e), s') \<and>
    (client_Get env ns name = Inr policy \<and>
     StartQueryBatch env (opPolIdentifier ns name) = None \<longrightarrow>
       fst (Reconcile env ns name s) =
         NewAggregate
           ([e] @
            (if changed
             then (case client_StatusUpdate env (status_log s') of
                     Some e2 \<Rightarrow> [e2]
                   | None \<Rightarrow> [])
             else []) @
            List.map_filter (emitComplianceEvent env)
              (if changed then conds @ [calculateComplianceCondition env (status_log s')]
               else conds)) \<and>
       requests (snd (Reconcile env ns name s)) =
         requests s' @ (if changed then [StatusUpdate (status_log s')] else []) \<and>
       status_log (snd (Reconcile env ns name s)) = status_log s' \<and>
       emitted (snd (Reconcile env ns name s)) =
         emitted s' @
         (if changed then conds @ [calculateComplianceCondition env (status_log s')]
          else conds))"
proof -
  from stage have run: "handleResources env policy s = ((conds, changed, Some e), s')"
    by (elim disjE exE conjE) (simp_all add: handleResources_def)
  have "client_Get env ns name = Inr policy \<and>
        StartQueryBatch env (opPolIdentifier ns name) = None \<longrightarrow>
          fst (Reconcile env ns name s) =
            NewAggregate
              ([e] @
               (if changed
                then (case client_StatusUpdate env (status_log s') of
                        Some e2 \<Rightarrow> [e2]
                      | None \<Rightarrow> [])
                else []) @
               List.map_filter (emitComplianceEvent env)
                 (if changed then conds @ [calculateComplianceCondition env (status_log s')]
                  else conds)) \<and>
          requests (snd (Reconcile env ns name s)) =
            requests s' @ (if changed then [StatusUpdate (status_log s')] else []) \<and>
          status_log (snd (Reconcile env ns name s)) = status_log s' \<and>
          emitted (snd (Reconcile env ns name s)) =
            emitted s' @
            (if changed then conds @ [calculateComplianceCondition env (status_log s')]
             else conds)"
  proof
    assume h: "client_Get env ns name = Inr policy \<and>
               StartQueryBatch env (opPolIdentifier ns name) = None"
    then have g: "client_Get env ns name = Inr policy"
      and b: "StartQueryBatch env (opPolIdentifier ns name) = None"
      by simp_all
    from Reconcile_errors [OF g b run] Reconcile_state [OF g b run]
    show "fst (Reconcile env ns name s) =
            NewAggregate
              ([e] @
               (if changed
                then (case client_StatusUpdate env (status_log s') of
                        Some e2 \<Rightarrow> [e2]
                      | None \<Rightarrow> [])
                else []) @
               List.map_filter (emitComplianceEvent env)
                 (if changed then conds @ [calculateComplianceCondition env (status_log s')]
                  else conds)) \<and>
          requests (snd (Reconcile env ns name s)) =
            requests s' @ (if changed then [StatusUpdate (status_log s')] else []) \<and>
          status_log (snd (Reconcile env ns name s)) = status_log s' \<and>
          emitted (snd (Reconcile env ns name s)) =
            emitted s' @
            (if changed then conds @ [calculateComplianceCondition env (status_log s')]
             else conds)"
      by simp
  qed
  with run show ?thesis by (rule conjI)
qed

lemma listing_fails_build:
  "buildResources listing_fails_env nogroup_policy listing_cluster =
     ((Some enforced_sub, Some default_og, True, None),
      listing_cluster\<lparr>status_log := [(validationCond [], [])]\<rparr>)"
  by (simp add: buildResources_def buildSubscription_def buildOperatorGroup_def
      updateStatus_def Let_def listing_fails_env_def example_env_def nogroup_policy_def
      example_policy_def example_spec_def example_sub_def enforced_sub_def default_og_def
      string_at_def IsEnforce_def ApprovalManual_def listing_cluster_def example_cluster_def
      namespaceGVK_def operatorGroupGVK_def)

lemma listing_fails_opgroup:
  "handleOpGroup listing_fails_env nogroup_policy (Some default_og)
     (listing_cluster\<lparr>status_log := [(validationCond [], [])]\<rparr>) =
     (([], False, Some (Wrapf ''error listing OperatorGroups: '' listing_error)),
      listing_cluster\<lparr>status_log := [(validationCond [], [])]\<rparr>)"
  by (simp add: handleOpGroup_def default_og_def listing_fails_env_def example_env_def
      operatorGroupGVK_def)

lemma listing_fails_run:
  "handleResources listing_fails_env nogroup_policy listing_cluster =
     (([], True, Some (Wrapf ''error listing OperatorGroups: '' listing_error)),
      listing_cluster\<lparr>status_log := [(validationCond [], [])]\<rparr>)"
  by (simp add: handleResources_def buildResources_def buildSubscription_def
      buildOperatorGroup_def handleOpGroup_def updateStatus_def Let_def listing_fails_env_def
      example_env_def nogroup_policy_def example_policy_def example_spec_def string_at_def
      IsEnforce_def listing_cluster_def example_cluster_def namespaceGVK_def
      operatorGroupGVK_def)

text \<open>
  On the cluster where listing fails, the desired objects are built, the operator-group
  reconciler returns the error of the list request, the pipeline returns it at once, and
  the run returns the aggregate of that one error after sending the status update and
  emitting the compliance event.
\<close>

theorem pipeline_stops_at_first_error_witness:
  "buildResources listing_fails_env nogroup_policy listing_cluster =
     ((Some enforced_sub, Some default_og, True, None),
      listing_cluster\<lparr>status_log := [(validationCond [], [])]\<rparr>) \<and>
   handleOpGroup listing_fails_env nogroup_policy (Some default_og)
     (listing_cluster\<lparr>status_log := [(validationCond [], [])]\<rparr>) =
     (([], False, Some (Wrapf ''error listing OperatorGroups: '' listing_error)),
      listing_cluster\<lparr>status_log := [(validationCond [], [])]\<rparr>) \<and>
   handleResources listing_fails_env nogroup_policy listing_cluster =
     (([], True, Some (Wrapf ''error listing OperatorGroups: '' listing_error)),
      listing_cluster\<lparr>status_log := [(validationCond [], [])]\<rparr>) \<and>
   client_Get listing_fails_env ''managed'' ''oppol'' = Inr nogroup_policy \<and>
   StartQueryBatch listing_fails_env (opPolIdentifier ''managed'' ''oppol'') = None \<and>
   fst (Reconcile listing_fails_env ''managed'' ''oppol'' listing_cluster) =
     Some (Aggregate [Wrapf ''error listing OperatorGroups: '' listing_error]) \<and>
   requests (snd (Reconcile listing_fails_env ''managed'' ''oppol'' listing_cluster)) =
     [StatusUpdate [(validationCond [], [])]] \<and>
   status_log (snd (Reconcile listing_fails_env ''managed'' ''oppol'' listing_cluster)) =
     [(validationCond [], [])] \<and>
   emitted (snd (Reconcile listing_fails_env ''managed'' ''oppol'' listing_cluster)) =
     [RawCondition ''Compliant'' ConditionFalse ''NonCompliant'' [] None]"
proof -
  have g: "client_Get listing_fails_env ''managed'' ''oppol'' = Inr nogroup_policy"
    and b: "StartQueryBatch listing_fails_env (opPolIdentifier ''managed'' ''oppol'') = None"
    by (simp_all add: listing_fails_env_def example_env_def)
  have lib: "client_StatusUpdate listing_fails_env = (\<lambda>st. None)"
    "emitComplianceEvent listing_fails_env = (\<lambda>c. None)"
    "calculateComplianceCondition listing_fails_env =
       (\<lambda>st. RawCondition ''Compliant'' ConditionFalse ''NonCompliant'' [] None)"
    "requests listing_cluster = []" "emitted listing_cluster = []"
    by (simp_all add: listing_fails_env_def example_env_def listing_cluster_def
        example_cluster_def)
  have stage: "\<exists>dSub dOG c0 s0 c1.
      buildResources listing_fails_env nogroup_policy listing_cluster =
        ((dSub, dOG, c0, None), s0) \<and>
      handleOpGroup listing_fails_env nogroup_policy dOG s0 =
        (([], c1, Some (Wrapf ''error listing OperatorGroups: '' listing_error)),
         listing_cluster\<lparr>status_log := [(validationCond [], [])]\<rparr>) \<and>
      True = (c0 \<or> c1)"
    apply (intro exI conjI)
      apply (rule listing_fails_build)
     apply (rule listing_fails_opgroup)
    apply simp
    done
  note T = pipeline_stops_at_first_error [OF disjI2, OF disjI1, OF stage,
      where ns = "''managed''" and name = "''oppol''"]
  note run = T [THEN conjunct1]
  note rec = T [THEN conjunct2, THEN mp, OF conjI, OF g b]
  from run rec listing_fails_build listing_fails_opgroup g b show ?thesis
    by (simp add: lib NewAggregate_def)
qed

text \<open>
  C1 as stated fails: on that cluster the subscription reconciler, run on the state the
  pipeline stopped in, returns no error and records the missing and then the created
  subscription, yet the status the pipeline returns holds the validity condition alone,
  because the stages after the operator groups did not run.
\<close>

theorem later_stages_skipped_counterexample:
  "handleResources listing_fails_env nogroup_policy listing_cluster =
     (([], True, Some (Wrapf ''error listing OperatorGroups: '' listing_error)),
      listing_cluster\<lparr>status_log := [(validationCond [], [])]\<rparr>) \<and>
   buildSubscription listing_fails_env nogroup_policy [] = Inr enforced_sub \<and>
   fst (handleSubscription listing_fails_env nogroup_policy (Some enforced_sub)
          (listing_cluster\<lparr>status_log := [(validationCond [], [])]\<rparr>)) =
     (Some enforced_sub, [RawCondition ''Compliant'' ConditionFalse ''NonCompliant'' [] None],
      True, None) \<and>
   status_log (snd (handleSubscription listing_fails_env nogroup_policy (Some enforced_sub)
                      (listing_cluster\<lparr>status_log := [(validationCond [], [])]\<rparr>))) =
     [(validationCond [], []),
      (missingWantedCond ''Subscription'', [missingWantedObj (SubscriptionObj enforced_sub)]),
      (createdCond ''Subscription'', [createdObj (SubscriptionObj enforced_sub)])]"
proof -
  have built: "buildSubscription listing_fails_env nogroup_policy [] = Inr enforced_sub"
    by (simp add: buildSubscription_def listing_fails_env_def example_env_def
        nogroup_policy_def example_policy_def example_spec_def example_sub_def enforced_sub_def
        string_at_def IsEnforce_def ApprovalManual_def Let_def)
  have later: "handleSubscription listing_fails_env nogroup_policy (Some enforced_sub)
          (listing_cluster\<lparr>status_log := [(validationCond [], [])]\<rparr>) =
     ((Some enforced_sub, [RawCondition ''Compliant'' ConditionFalse ''NonCompliant'' [] None],
       True, None),
      listing_cluster
        \<lparr>status_log :=
           [(validationCond [], []),
            (missingWantedCond ''Subscription'', [missingWantedObj (SubscriptionObj enforced_sub)]),
            (createdCond ''Subscription'', [createdObj (SubscriptionObj enforced_sub)])],
         requests := [Create (SubscriptionObj enforced_sub)]\<rparr>)"
    by (simp add: handleSubscription_def handleSubscription_missing_def
        r_Create_Subscription_def updateStatus_def Let_def listing_fails_env_def
        example_env_def nogroup_policy_def example_policy_def IsInform_def
        subscriptionGVK_def namespaceGVK_def enforced_sub_def example_sub_def
        listing_cluster_def example_cluster_def)
  from listing_fails_run built later show ?thesis by simp
qed

end
